theory Spec2Isabelle
  imports Complex_Main
begin

section \<open>The demo notebook \<open>samples/humanoids_pouring/demo.ipynb\<close>\<close>

text \<open>
  The notebook is a straight-line Python script split into seven code cells. Its state
  is the set of notebook globals it assigns. Everything it calls outside this repository
  (the file system, the random generator, the Mask R-CNN library, scikit-image) is a
  parameter of the model, collected in the record \<open>world\<close>. Every call of the external
  model library and every image read is logged in a trace, in the order it is made.
  A Python exception is never caught by the notebook, so it stops the run: the state keeps
  the exception in \<open>raised\<close> and no later statement is executed.
  The imports at the top of the first cell are taken to succeed.
\<close>

subsection \<open>Python values and built-ins\<close>

type_synonym path = string

datatype py_error =
    AssertionError
  | NameError
  | IndexError
  | KeyError
  | AttributeError
  | TypeError
  | ValueError
  | StopIteration
  | ExternalError string

datatype pyval = PyStr string | PyFloat real | PyInt int | PyBool bool

text \<open>An object with plain attributes is its attribute dictionary.\<close>

type_synonym config_obj = "string \<rightharpoonup> pyval"

type_synonym image_record = "string \<rightharpoonup> string"

record dataset =
  image_info :: "image_record list"
  class_names :: "string list"

datatype image_data = Pixels "nat list"

record detection =
  rois :: "int list list"
  masks :: "nat list"
  class_ids :: "int list"
  scores :: "nat list"

text \<open>
  \<open>os.path.join(a, b)\<close> on POSIX: an absolute \<open>b\<close> replaces \<open>a\<close>; otherwise the two
  are joined with one separator unless \<open>a\<close> is empty or already ends with one.
\<close>

definition path_join :: "path \<Rightarrow> path \<Rightarrow> path" where
  "path_join a b =
     (if b \<noteq> [] \<and> hd b = CHR ''/'' then b
      else if a = [] \<or> last a = CHR ''/'' then a @ b
      else a @ ''/'' @ b)"

text \<open>\<open>xs[i]\<close> on a Python list: a negative index counts from the end, an index out of
  range raises \<open>IndexError\<close>.\<close>

definition py_getitem :: "'a list \<Rightarrow> int \<Rightarrow> py_error + 'a" where
  "py_getitem xs i =
     (let n = int (length xs);
          j = (if i < 0 then i + n else i)
      in if j < 0 \<or> n \<le> j then Inl IndexError else Inr (xs ! nat j))"

text \<open>\<open>d[k]\<close> on a Python dict.\<close>

definition py_dict_get :: "('k \<rightharpoonup> 'v) \<Rightarrow> 'k \<Rightarrow> py_error + 'v" where
  "py_dict_get d k = (case d k of None \<Rightarrow> Inl KeyError | Some v \<Rightarrow> Inr v)"

text \<open>\<open>obj.name\<close> on an object with plain attributes.\<close>

definition py_getattr :: "config_obj \<Rightarrow> string \<Rightarrow> py_error + pyval" where
  "py_getattr obj name = (case obj name of None \<Rightarrow> Inl AttributeError | Some v \<Rightarrow> Inr v)"

text \<open>\<open>obj.name = v\<close> on an object with plain attributes.\<close>

definition py_setattr :: "config_obj \<Rightarrow> string \<Rightarrow> pyval \<Rightarrow> config_obj" where
  "py_setattr obj name v = obj(name \<mapsto> v)"

text \<open>
  \<open>random.randint(a, b)\<close> returns an integer \<open>N\<close> with \<open>a \<le> N \<le> b\<close>, both ends
  included, and raises \<open>ValueError\<close> on an empty range. The generator's raw draw is a
  parameter; every integer of the closed range is the result of some draw.
\<close>

definition randint :: "nat \<Rightarrow> int \<Rightarrow> int \<Rightarrow> py_error + int" where
  "randint raw a b =
     (if b < a then Inl ValueError else Inr (a + int (raw mod nat (b - a + 1))))"

text \<open>\<open>random.choice(seq)\<close> raises \<open>IndexError\<close> on an empty sequence and returns one
  of its elements otherwise.\<close>

definition choice :: "nat \<Rightarrow> 'a list \<Rightarrow> py_error + 'a" where
  "choice raw xs = (if xs = [] then Inl IndexError else Inr (xs ! (raw mod length xs)))"

subsection \<open>The world outside the notebook\<close>

record world =
  abspath :: "path \<Rightarrow> path"
  path_exists :: "path \<Rightarrow> bool"
  YCBVideoConfigInference :: config_obj
  MaskRCNN_raises :: "py_error option"
  load_weights_raises :: "path \<Rightarrow> py_error option"
  load_dataset :: "path \<Rightarrow> string \<Rightarrow> py_error + dataset"
  imread :: "path \<Rightarrow> py_error + image_data"
  walk_files :: "path \<Rightarrow> py_error + string list"
  randint_raw :: nat
  choice_raw :: nat
  detect :: "image_data list \<Rightarrow> py_error + detection list"
  display_instances_raises :: "py_error option"

datatype event =
    ConfigDisplay config_obj
  | MaskRCNN_init string path config_obj
  | LoadWeights path bool
  | LoadDataset path string
  | ImRead path
  | Detect "image_data list" int
  | DisplayInstances image_data "int list list" "nat list" "int list" "string list" "nat list"

subsection \<open>Notebook state\<close>

record nb_state =
  raised :: "py_error option"
  trace :: "event list"
  environ :: "string \<rightharpoonup> string"
  ROOT_DIR :: "path option"
  MODEL_DIR :: "path option"
  TRAINED_MODEL_PATH :: "path option"
  IMAGE_DIR :: "path option"
  config :: "config_obj option"
  model :: "unit option"
  dataset_root_dir :: "path option"
  dataset_val :: "dataset option"
  random_val_img_info :: "image_record option"
  image :: "image_data option"
  file_names :: "string list option"
  results :: "detection list option"
  r_res :: "detection option"

definition fresh_kernel :: nb_state where
  "fresh_kernel =
     \<lparr> raised = None, trace = [], environ = Map.empty,
       ROOT_DIR = None, MODEL_DIR = None, TRAINED_MODEL_PATH = None, IMAGE_DIR = None,
       config = None, model = None, dataset_root_dir = None, dataset_val = None,
       random_val_img_info = None, image = None, file_names = None,
       results = None, r_res = None \<rparr>"

type_synonym stmt = "nb_state \<Rightarrow> nb_state"

definition raise :: "py_error \<Rightarrow> stmt" where
  "raise e s = s\<lparr>raised := Some e\<rparr>"

definition emit :: "event \<Rightarrow> stmt" where
  "emit e s = s\<lparr>trace := trace s @ [e]\<rparr>"

text \<open>Reading a global that has not been assigned raises \<open>NameError\<close>.\<close>

definition rd :: "(nb_state \<Rightarrow> 'a option) \<Rightarrow> ('a \<Rightarrow> stmt) \<Rightarrow> stmt" where
  "rd var k s = (case var s of None \<Rightarrow> raise NameError s | Some v \<Rightarrow> k v s)"

text \<open>Using a value whose computation may raise.\<close>

definition with_value :: "py_error + 'a \<Rightarrow> ('a \<Rightarrow> stmt) \<Rightarrow> stmt" where
  "with_value x k s = (case x of Inl e \<Rightarrow> raise e s | Inr v \<Rightarrow> k v s)"

text \<open>A call that returns nothing and may raise.\<close>

definition may_raise :: "py_error option \<Rightarrow> stmt" where
  "may_raise x s = (case x of None \<Rightarrow> s | Some e \<Rightarrow> raise e s)"

text \<open>Statements run in order; the first exception ends the run.\<close>

fun run_stmts :: "stmt list \<Rightarrow> nb_state \<Rightarrow> nb_state" where
  "run_stmts [] s = s"
| "run_stmts (c # cs) s =
     (if raised s = None then run_stmts cs (c s) else s)"

subsection \<open>The code cells\<close>

text \<open>
  Cell 1 (after the imports):
  \<^verbatim>\<open>
  ROOT_DIR = os.path.abspath("../../")
  MODEL_DIR = os.path.join(ROOT_DIR, "logs")
  TRAINED_MODEL_PATH = os.path.join(MODEL_DIR, "bottles/bottles_exp_4", "mask_rcnn_bottles_0040.h5")
  assert os.path.exists(TRAINED_MODEL_PATH)
  IMAGE_DIR = os.path.join(ROOT_DIR, "images")
  \<close>
\<close>

definition cell_1 :: "world \<Rightarrow> stmt list" where
  "cell_1 w =
     [ (\<lambda>s. s\<lparr>ROOT_DIR := Some (abspath w ''../../'')\<rparr>),
       rd ROOT_DIR (\<lambda>root s. s\<lparr>MODEL_DIR := Some (path_join root ''logs'')\<rparr>),
       rd MODEL_DIR (\<lambda>md s. s\<lparr>TRAINED_MODEL_PATH :=
          Some (path_join (path_join md ''bottles/bottles_exp_4'') ''mask_rcnn_bottles_0040.h5'')\<rparr>),
       rd TRAINED_MODEL_PATH (\<lambda>p s. if path_exists w p then s else raise AssertionError s),
       rd ROOT_DIR (\<lambda>root s. s\<lparr>IMAGE_DIR := Some (path_join root ''images'')\<rparr>) ]"

text \<open>
  Cell 2:
  \<^verbatim>\<open>
  config = tabletop.configurations.YCBVideoConfigInference()
  config.DETECTION_MIN_CONFIDENCE = 0.8
  config.display()
  os.environ['CUDA_DEVICE_ORDER'] = 'PCI_BUS_ID'
  os.environ['CUDA_VISIBLE_DEVICES'] = config.GPU_ID
  \<close>
  \<open>os.environ\<close> takes strings only.
\<close>

definition assign_DETECTION_MIN_CONFIDENCE :: stmt where
  "assign_DETECTION_MIN_CONFIDENCE =
     rd config (\<lambda>c s. s\<lparr>config := Some (py_setattr c ''DETECTION_MIN_CONFIDENCE'' (PyFloat 0.8))\<rparr>)"

definition cell_2 :: "world \<Rightarrow> stmt list" where
  "cell_2 w =
     [ (\<lambda>s. s\<lparr>config := Some (YCBVideoConfigInference w)\<rparr>),
       assign_DETECTION_MIN_CONFIDENCE,
       rd config (\<lambda>c. emit (ConfigDisplay c)),
       (\<lambda>s. s\<lparr>environ := (environ s)(''CUDA_DEVICE_ORDER'' \<mapsto> ''PCI_BUS_ID'')\<rparr>),
       rd config (\<lambda>c. with_value (py_getattr c ''GPU_ID'') (\<lambda>v s.
          case v of
            PyStr g \<Rightarrow> s\<lparr>environ := (environ s)(''CUDA_VISIBLE_DEVICES'' \<mapsto> g)\<rparr>
          | _ \<Rightarrow> raise TypeError s)) ]"

text \<open>
  Cell 3:
  \<^verbatim>\<open>
  model = modellib.MaskRCNN(mode="inference", model_dir=MODEL_DIR, config=config)
  model.load_weights(TRAINED_MODEL_PATH, by_name=True)
  \<close>
  The name \<open>model\<close> is bound only when the constructor returns.
\<close>

definition cell_3 :: "world \<Rightarrow> stmt list" where
  "cell_3 w =
     [ rd MODEL_DIR (\<lambda>md. rd config (\<lambda>c s.
          let s1 = emit (MaskRCNN_init ''inference'' md c) s in
          case MaskRCNN_raises w of
            Some e \<Rightarrow> raise e s1
          | None \<Rightarrow> s1\<lparr>model := Some ()\<rparr>)),
       rd model (\<lambda>_. rd TRAINED_MODEL_PATH (\<lambda>p s.
          may_raise (load_weights_raises w p) (emit (LoadWeights p True) s))) ]"

text \<open>
  Cell 4:
  \<^verbatim>\<open>
  dataset_root_dir = os.path.join(ROOT_DIR, "datasets", "bottles")
  dataset_val = tabletop.datasets.YCBVideoDataset()
  dataset_val.load_dataset(dataset_root_dir, 'val')
  \<close>
  The adapter class is not part of the notebook: the fresh object has no records and no
  class names, and what \<open>load_dataset\<close> leaves in it is given by the world.
\<close>

definition cell_4 :: "world \<Rightarrow> stmt list" where
  "cell_4 w =
     [ rd ROOT_DIR (\<lambda>root s. s\<lparr>dataset_root_dir :=
          Some (path_join (path_join root ''datasets'') ''bottles'')\<rparr>),
       (\<lambda>s. s\<lparr>dataset_val := Some \<lparr>image_info = [], class_names = []\<rparr>\<rparr>),
       rd dataset_val (\<lambda>_. rd dataset_root_dir (\<lambda>d s.
          with_value (load_dataset w d ''val'') (\<lambda>ds s'. s'\<lparr>dataset_val := Some ds\<rparr>)
            (emit (LoadDataset d ''val'') s))) ]"

text \<open>
  Cell 5:
  \<^verbatim>\<open>
  # Load a random image from val set
  random_val_img_info = dataset_val.image_info[random.randint(0, len(dataset_val.image_info))]
  image = skimage.io.imread(random_val_img_info['path'])
  \<close>
\<close>

definition cell_5 :: "world \<Rightarrow> stmt list" where
  "cell_5 w =
     [ rd dataset_val (\<lambda>ds.
          with_value (randint (randint_raw w) 0 (int (length (image_info ds)))) (\<lambda>i.
          with_value (py_getitem (image_info ds) i) (\<lambda>info s.
            s\<lparr>random_val_img_info := Some info\<rparr>))),
       rd random_val_img_info (\<lambda>info.
          with_value (py_dict_get info ''path'') (\<lambda>p s.
            with_value (imread w p) (\<lambda>img s'. s'\<lparr>image := Some img\<rparr>)
              (emit (ImRead p) s))) ]"

text \<open>
  Cell 6:
  \<^verbatim>\<open>
  # Load a random image from the images folder
  file_names = next(os.walk(IMAGE_DIR))[2]
  image = skimage.io.imread(os.path.join(IMAGE_DIR, random.choice(file_names)))
  \<close>
\<close>

definition cell_6 :: "world \<Rightarrow> stmt list" where
  "cell_6 w =
     [ rd IMAGE_DIR (\<lambda>d.
          with_value (walk_files w d) (\<lambda>fs s. s\<lparr>file_names := Some fs\<rparr>)),
       rd IMAGE_DIR (\<lambda>d. rd file_names (\<lambda>fs.
          with_value (choice (choice_raw w) fs) (\<lambda>f s.
            with_value (imread w (path_join d f)) (\<lambda>img s'. s'\<lparr>image := Some img\<rparr>)
              (emit (ImRead (path_join d f)) s)))) ]"

text \<open>
  Cell 7 (the two timing statements and the \<open>print\<close> of the elapsed time read the clock
  and write to the output only; they are left out):
  \<^verbatim>\<open>
  results = model.detect([image], verbose=1)
  r = results[0]
  visualize.display_instances(image, r['rois'], r['masks'], r['class_ids'],
                              dataset_val.class_names, r['scores'])
  \<close>
\<close>

definition cell_7 :: "world \<Rightarrow> stmt list" where
  "cell_7 w =
     [ rd model (\<lambda>_. rd image (\<lambda>img s.
          with_value (detect w [img]) (\<lambda>rs s'. s'\<lparr>results := Some rs\<rparr>)
            (emit (Detect [img] 1) s))),
       rd results (\<lambda>rs. with_value (py_getitem rs 0) (\<lambda>d s. s\<lparr>r_res := Some d\<rparr>)),
       rd image (\<lambda>img. rd r_res (\<lambda>d. rd dataset_val (\<lambda>ds s.
          may_raise (display_instances_raises w)
            (emit (DisplayInstances img (rois d) (masks d) (class_ids d)
                     (class_names ds) (scores d)) s)))) ]"

text \<open>Running all cells from top to bottom in a fresh kernel.\<close>

definition notebook :: "world \<Rightarrow> stmt list" where
  "notebook w = cell_1 w @ cell_2 w @ cell_3 w @ cell_4 w @ cell_5 w @ cell_6 w @ cell_7 w"

definition run_all :: "world \<Rightarrow> nb_state" where
  "run_all w = run_stmts (notebook w) fresh_kernel"

subsection \<open>Values the notebook computes from the world\<close>

text \<open>The paths built in cells 1 and 4 and the configuration object after cell 2.\<close>

definition root_dir :: "world \<Rightarrow> path" where "root_dir w = abspath w ''../../''"
definition model_dir :: "world \<Rightarrow> path" where "model_dir w = path_join (root_dir w) ''logs''"
definition weights_path :: "world \<Rightarrow> path" where
  "weights_path w = path_join (path_join (model_dir w) ''bottles/bottles_exp_4'') ''mask_rcnn_bottles_0040.h5''"
definition image_dir :: "world \<Rightarrow> path" where "image_dir w = path_join (root_dir w) ''images''"
definition dataset_root :: "world \<Rightarrow> path" where
  "dataset_root w = path_join (path_join (root_dir w) ''datasets'') ''bottles''"
definition inference_config :: "world \<Rightarrow> config_obj" where
  "inference_config w = py_setattr (YCBVideoConfigInference w) ''DETECTION_MIN_CONFIDENCE'' (PyFloat 0.8)"

text \<open>The calls of \<open>model.detect\<close> in a trace.\<close>

fun is_detect :: "event \<Rightarrow> bool" where
  "is_detect (Detect imgs v) = True"
| "is_detect _ = False"

text \<open>The state when cells 1 to 6 have run, before the detection cell.\<close>

definition before_detect :: "world \<Rightarrow> nb_state" where
  "before_detect w =
     run_stmts (cell_1 w @ cell_2 w @ cell_3 w @ cell_4 w @ cell_5 w @ cell_6 w) fresh_kernel"

text \<open>A statement is quiet when it adds no call of \<open>model.detect\<close> to the trace.\<close>

definition quiet :: "stmt \<Rightarrow> bool" where
  "quiet c \<longleftrightarrow> (\<forall>s. (\<forall>e \<in> set (trace s). \<not> is_detect e) \<longrightarrow> (\<forall>e \<in> set (trace (c s)). \<not> is_detect e))"

text \<open>A statement only ever appends to the trace.\<close>

definition grows :: "stmt \<Rightarrow> bool" where
  "grows c \<longleftrightarrow> (\<forall>s. \<exists>ext. trace (c s) = trace s @ ext)"

text \<open>A world in which every external call succeeds, used to evaluate the notebook.\<close>

definition demo_world :: world where
  "demo_world =
     \<lparr> abspath = (\<lambda>_. ''/repo''),
       path_exists = (\<lambda>_. True),
       YCBVideoConfigInference =
         [''GPU_ID'' \<mapsto> PyStr ''0'', ''DETECTION_MIN_CONFIDENCE'' \<mapsto> PyFloat 0.9],
       MaskRCNN_raises = None,
       load_weights_raises = (\<lambda>_. None),
       load_dataset = (\<lambda>_ _. Inr \<lparr>image_info = [[''path'' \<mapsto> ''/d/a.png'']],
                                      class_names = [''BG'', ''bottle'']\<rparr>),
       imread = (\<lambda>p. Inr (Pixels (if p = ''/d/a.png'' then [1, 1] else [2, 2]))),
       walk_files = (\<lambda>_. Inr [''x.jpg'']),
       randint_raw = 0,
       choice_raw = 0,
       detect = (\<lambda>imgs. Inr [\<lparr>rois = [[1, 2, 3, 4]], masks = [1], class_ids = [1], scores = [9]\<rparr>]),
       display_instances_raises = None \<rparr>"

section \<open>The command line \<open>samples/tabletop/tabletop.py\<close>\<close>

text \<open>
  Modelled from the spec: \<open>tabletop.py\<close> is not among the sources; only its usage text,
  printed by \<open>--help\<close>, is (in \<open>samples/tabletop/README.md\<close>). The ways the parser can end
  without a result: \<open>-h\<close> prints the help and exits, anything malformed is a usage error.
\<close>

datatype cli_exit = HelpShown | UsageError string

text \<open>
  Modelled from the spec: the parsed arguments of \<open>tabletop.py\<close>, one field per argument
  of the usage line
  \<^verbatim>\<open>tabletop.py [-h] [--dataset PATH] --weights PATH_OR_"coco" [--logs PATH] [--image PATH] [--video PATH] <train|splash|evaluate>\<close>.
  The optional ones may be absent; \<open>--logs\<close> always has a value because it has a default.
\<close>

record cli_args =
  arg_command :: string
  arg_dataset :: "string option"
  arg_weights :: string
  arg_logs :: string
  arg_image :: "string option"
  arg_video :: "string option"

text \<open>
  Modelled from the spec: the values collected while the tokens of the command line are
  read, before the required arguments are checked.
\<close>

record namespace =
  ns_dataset :: "string option"
  ns_weights :: "string option"
  ns_logs :: string
  ns_image :: "string option"
  ns_video :: "string option"
  ns_positionals :: "string list"

text \<open>
  Modelled from the spec: nothing is set at the start except the documented default of
  \<open>--logs\<close>, \<open>logs/\<close>.
\<close>

definition initial_namespace :: namespace where
  "initial_namespace =
     \<lparr> ns_dataset = None, ns_weights = None, ns_logs = ''logs/'',
       ns_image = None, ns_video = None, ns_positionals = [] \<rparr>"

text \<open>
  Modelled from the spec: a token that starts with a dash is an option name, not a value
  or a positional argument.
\<close>

definition is_flag :: "string \<Rightarrow> bool" where
  "is_flag t \<longleftrightarrow> t \<noteq> [] \<and> hd t = CHR ''-''"

text \<open>
  Modelled from the spec: the five options of the usage line, each taking one value.
\<close>

definition store_option :: "string \<Rightarrow> string \<Rightarrow> namespace \<Rightarrow> namespace option" where
  "store_option name v ns =
     (if name = ''--dataset'' then Some (ns\<lparr>ns_dataset := Some v\<rparr>)
      else if name = ''--weights'' then Some (ns\<lparr>ns_weights := Some v\<rparr>)
      else if name = ''--logs'' then Some (ns\<lparr>ns_logs := v\<rparr>)
      else if name = ''--image'' then Some (ns\<lparr>ns_image := Some v\<rparr>)
      else if name = ''--video'' then Some (ns\<lparr>ns_video := Some v\<rparr>)
      else None)"

text \<open>
  Modelled from the spec: reading the command line left to right. An option consumes the
  next token as its value; any other token is a positional argument. The forms
  \<open>--name=value\<close> and abbreviated option names are not modelled.
\<close>

fun parse_tokens :: "string list \<Rightarrow> namespace \<Rightarrow> cli_exit + namespace" where
  "parse_tokens [] ns = Inr ns"
| "parse_tokens [t] ns =
     (if t = ''-h'' \<or> t = ''--help'' then Inl HelpShown
      else if is_flag t then Inl (UsageError ''expected one argument'')
      else Inr (ns\<lparr>ns_positionals := ns_positionals ns @ [t]\<rparr>))"
| "parse_tokens (t # v # rest) ns =
     (if t = ''-h'' \<or> t = ''--help'' then Inl HelpShown
      else if is_flag t then
        (if is_flag v then Inl (UsageError ''expected one argument'')
         else case store_option t v ns of
                None \<Rightarrow> Inl (UsageError ''unrecognized arguments'')
              | Some ns' \<Rightarrow> parse_tokens rest ns')
      else parse_tokens (v # rest) (ns\<lparr>ns_positionals := ns_positionals ns @ [t]\<rparr>))"

text \<open>
  Modelled from the spec: the three commands of the usage line.
\<close>

definition commands :: "string list" where
  "commands = [''train'', ''splash'', ''evaluate'']"

text \<open>
  Modelled from the spec: the whole parser of \<open>tabletop.py\<close>. After the tokens are read,
  \<open>--weights\<close> must have been given, and there must be exactly one positional argument,
  which must be one of the three commands.
\<close>

definition parse_args :: "string list \<Rightarrow> cli_exit + cli_args" where
  "parse_args argv =
     (case parse_tokens argv initial_namespace of
        Inl e \<Rightarrow> Inl e
      | Inr ns \<Rightarrow>
          (case ns_weights ns of
             None \<Rightarrow> Inl (UsageError ''the following arguments are required: --weights'')
           | Some wt \<Rightarrow>
               (case ns_positionals ns of
                  [] \<Rightarrow> Inl (UsageError ''the following arguments are required: <command>'')
                | [c] \<Rightarrow>
                    if c \<in> set commands
                    then Inr \<lparr> arg_command = c, arg_dataset = ns_dataset ns, arg_weights = wt,
                               arg_logs = ns_logs ns, arg_image = ns_image ns,
                               arg_video = ns_video ns \<rparr>
                    else Inl (UsageError ''invalid command'')
                | _ \<Rightarrow> Inl (UsageError ''unrecognized arguments''))))"

text \<open>
  Modelled from the spec: the positional arguments of a command line, read off the
  tokens without parsing the options: every token that is neither an option name nor the
  value that follows one.
\<close>

fun positional_tokens :: "string list \<Rightarrow> string list" where
  "positional_tokens [] = []"
| "positional_tokens [t] = (if is_flag t then [] else [t])"
| "positional_tokens (t # v # rest) =
     (if is_flag t then positional_tokens rest else t # positional_tokens (v # rest))"


text \<open>
  Modelled from the spec: the value a command line gives to an option, read off the tokens
  without parsing: the token that follows the last occurrence of the option name in option
  position, if there is one.
\<close>

fun option_value :: "string \<Rightarrow> string list \<Rightarrow> string option" where
  "option_value name [] = None"
| "option_value name [t] = None"
| "option_value name (t # v # rest) =
     (if is_flag t then
        (case option_value name rest of
           Some x \<Rightarrow> Some x
         | None \<Rightarrow> if t = name then Some v else None)
      else option_value name (v # rest))"

text \<open>
  Modelled from the spec: a command line is well formed when every option name on it is one
  of the five options of the usage line and is followed by a value. \<open>-h\<close> and \<open>--help\<close>
  are not among them: they end the run with the help text.
\<close>

fun options_ok :: "string list \<Rightarrow> bool" where
  "options_ok [] = True"
| "options_ok [t] = (\<not> is_flag t)"
| "options_ok (t # v # rest) =
     (if is_flag t then
        t \<in> {''--dataset'', ''--weights'', ''--logs'', ''--image'', ''--video''} \<and>
        \<not> is_flag v \<and> options_ok rest
      else options_ok (v # rest))"

text \<open>
  Modelled from the spec: what the splash mode works on, an image or a video, given by
  \<open>--image\<close> or \<open>--video\<close>.
\<close>

datatype splash_input = ImageInput string | VideoInput string

text \<open>
  Modelled from the spec: the calls the script makes after parsing. The first three are the
  calls on the external model object that the spec names (\<open>train\<close>, \<open>detect\<close>,
  \<open>evaluate\<close>); \<open>Overlay\<close> is the drawing of the detection results on the input.
\<close>

datatype action =
    ModelTrain "string option"
  | ModelDetect splash_input
  | ModelEvaluate "string option"
  | Overlay splash_input

text \<open>
  Modelled from the spec: which actions are calls on the external model object.
\<close>

fun is_model_call :: "action \<Rightarrow> bool" where
  "is_model_call (Overlay i) = False"
| "is_model_call _ = True"

text \<open>
  Modelled from the spec: the splash mode of \<open>tabletop.py\<close>, which overlays detection
  results on an image or a video frame. The spec names no input other than \<open>--image\<close> and
  \<open>--video\<close>, so a splash command with neither is a usage error here.
\<close>

definition splash :: "cli_args \<Rightarrow> cli_exit + action list" where
  "splash a =
     (case arg_image a of
        Some p \<Rightarrow> Inr [ModelDetect (ImageInput p), Overlay (ImageInput p)]
      | None \<Rightarrow>
          (case arg_video a of
             Some v \<Rightarrow> Inr [ModelDetect (VideoInput v), Overlay (VideoInput v)]
           | None \<Rightarrow> Inl (UsageError ''splash needs --image or --video'')))"

text \<open>
  Modelled from the spec: the three-way dispatch of \<open>tabletop.py\<close> on the command.
\<close>

definition dispatch :: "cli_args \<Rightarrow> cli_exit + action list" where
  "dispatch a =
     (if arg_command a = ''train'' then Inr [ModelTrain (arg_dataset a)]
      else if arg_command a = ''splash'' then splash a
      else if arg_command a = ''evaluate'' then Inr [ModelEvaluate (arg_dataset a)]
      else Inl (UsageError ''command not recognized''))"

text \<open>
  Modelled from the spec: \<open>tabletop.py\<close> as a whole, argument parsing followed by the
  dispatch.
\<close>

definition main :: "string list \<Rightarrow> cli_exit + action list" where
  "main argv = (case parse_args argv of Inl e \<Rightarrow> Inl e | Inr a \<Rightarrow> dispatch a)"

section \<open>Properties of the demo notebook\<close>

subsection \<open>Running statements\<close>

lemmas stmt_defs = rd_def with_value_def may_raise_def raise_def emit_def
lemmas path_defs = root_dir_def model_dir_def weights_path_def image_dir_def dataset_root_def inference_config_def

lemma run_stmts_raised: "raised s \<noteq> None \<Longrightarrow> run_stmts cs s = s"
  by (cases cs) auto

lemma run_stmts_ok_pre: "raised (run_stmts cs s) = None \<Longrightarrow> raised s = None"
  by (cases "raised s = None") (simp_all add: run_stmts_raised)

lemma run_stmts_append: "run_stmts (xs @ ys) s = run_stmts ys (run_stmts xs s)"
  by (induction xs arbitrary: s) (auto simp: run_stmts_raised)

lemma cell_1_ok:
  assumes "raised s = None" "raised (run_stmts (cell_1 w) s) = None"
  shows "run_stmts (cell_1 w) s =
     s\<lparr>ROOT_DIR := Some (root_dir w), MODEL_DIR := Some (model_dir w),
       TRAINED_MODEL_PATH := Some (weights_path w), IMAGE_DIR := Some (image_dir w)\<rparr>
     \<and> path_exists w (weights_path w)"
  using assms by (simp add: cell_1_def stmt_defs path_defs split: if_splits)

lemma cell_2_ok:
  assumes "raised s = None" "raised (run_stmts (cell_2 w) s) = None"
  shows "\<exists>g. YCBVideoConfigInference w ''GPU_ID'' = Some (PyStr g) \<and> run_stmts (cell_2 w) s =
     s\<lparr>config := Some (inference_config w),
        trace := trace s @ [ConfigDisplay (inference_config w)],
        environ := (environ s)(''CUDA_DEVICE_ORDER'' \<mapsto> ''PCI_BUS_ID'', ''CUDA_VISIBLE_DEVICES'' \<mapsto> g)\<rparr>"
  using assms
  by (simp add: cell_2_def assign_DETECTION_MIN_CONFIDENCE_def stmt_defs path_defs py_getattr_def py_setattr_def
       split: if_splits option.splits pyval.splits)

lemma cell_3_ok:
  assumes "raised s = None" "MODEL_DIR s = Some md" "config s = Some c" "TRAINED_MODEL_PATH s = Some p"
    "raised (run_stmts (cell_3 w) s) = None"
  shows "run_stmts (cell_3 w) s =
     s\<lparr>trace := trace s @ [MaskRCNN_init ''inference'' md c, LoadWeights p True], model := Some ()\<rparr>
     \<and> MaskRCNN_raises w = None \<and> load_weights_raises w p = None"
  using assms
  by (simp add: cell_3_def stmt_defs Let_def split: if_splits option.splits)

lemma cell_4_ok:
  assumes "raised s = None" "ROOT_DIR s = Some (root_dir w)"
    "raised (run_stmts (cell_4 w) s) = None"
  shows "\<exists>ds. load_dataset w (dataset_root w) ''val'' = Inr ds \<and> run_stmts (cell_4 w) s =
     s\<lparr>dataset_root_dir := Some (dataset_root w),
       trace := trace s @ [LoadDataset (dataset_root w) ''val''],
       dataset_val := Some ds\<rparr>"
  using assms
  by (simp add: cell_4_def stmt_defs path_defs split: if_splits sum.splits)

lemma cell_5_ok:
  assumes "raised s = None" "dataset_val s = Some ds"
    "raised (run_stmts (cell_5 w) s) = None"
  shows "\<exists>i info p img.
       randint (randint_raw w) 0 (int (length (image_info ds))) = Inr i \<and>
       py_getitem (image_info ds) i = Inr info \<and>
       py_dict_get info ''path'' = Inr p \<and> imread w p = Inr img \<and>
       run_stmts (cell_5 w) s =
         s\<lparr>random_val_img_info := Some info, trace := trace s @ [ImRead p], image := Some img\<rparr>"
  using assms
  by (auto simp add: cell_5_def stmt_defs split: if_splits sum.splits)

lemma cell_6_ok:
  assumes "raised s = None" "IMAGE_DIR s = Some d"
    "raised (run_stmts (cell_6 w) s) = None"
  shows "\<exists>fs f img.
       walk_files w d = Inr fs \<and> choice (choice_raw w) fs = Inr f \<and>
       imread w (path_join d f) = Inr img \<and>
       run_stmts (cell_6 w) s =
         s\<lparr>file_names := Some fs, trace := trace s @ [ImRead (path_join d f)], image := Some img\<rparr>"
  using assms
  by (auto simp add: cell_6_def stmt_defs split: if_splits sum.splits)

lemma cell_7_ok:
  assumes "raised s = None" "model s = Some ()" "image s = Some img" "dataset_val s = Some ds"
    "raised (run_stmts (cell_7 w) s) = None"
  shows "\<exists>rs d.
       detect w [img] = Inr rs \<and> py_getitem rs 0 = Inr d \<and> display_instances_raises w = None \<and>
       run_stmts (cell_7 w) s =
         s\<lparr>trace := trace s @ [Detect [img] 1,
               DisplayInstances img (rois d) (masks d) (class_ids d) (class_names ds) (scores d)],
           results := Some rs, r_res := Some d\<rparr>"
  using assms
  by (auto simp add: cell_7_def stmt_defs split: if_splits sum.splits option.splits)

lemma run_all_split: "run_all w = run_stmts (cell_7 w) (before_detect w)"
  by (simp add: run_all_def notebook_def before_detect_def run_stmts_append)

lemma before_detect_ok:
  assumes ok: "raised (before_detect w) = None"
  shows "\<exists>ds info p1 img1 fs f img i.
      path_exists w (weights_path w) \<and>
      MaskRCNN_raises w = None \<and> load_weights_raises w (weights_path w) = None \<and>
      load_dataset w (dataset_root w) ''val'' = Inr ds \<and>
      randint (randint_raw w) 0 (int (length (image_info ds))) = Inr i \<and>
      py_getitem (image_info ds) i = Inr info \<and>
      py_dict_get info ''path'' = Inr p1 \<and> imread w p1 = Inr img1 \<and>
      walk_files w (image_dir w) = Inr fs \<and> choice (choice_raw w) fs = Inr f \<and>
      imread w (path_join (image_dir w) f) = Inr img \<and>
      trace (before_detect w) =
        [ConfigDisplay (inference_config w),
         MaskRCNN_init ''inference'' (model_dir w) (inference_config w),
         LoadWeights (weights_path w) True,
         LoadDataset (dataset_root w) ''val'',
         ImRead p1,
         ImRead (path_join (image_dir w) f)] \<and>
      model (before_detect w) = Some () \<and>
      nb_state.image (before_detect w) = Some img \<and>
      dataset_val (before_detect w) = Some ds"
proof -
  define s1 where "s1 = run_stmts (cell_1 w) fresh_kernel"
  define s2 where "s2 = run_stmts (cell_2 w) s1"
  define s3 where "s3 = run_stmts (cell_3 w) s2"
  define s4 where "s4 = run_stmts (cell_4 w) s3"
  define s5 where "s5 = run_stmts (cell_5 w) s4"
  define s6 where "s6 = run_stmts (cell_6 w) s5"
  have s6: "before_detect w = s6"
    by (simp add: before_detect_def run_stmts_append s1_def s2_def s3_def s4_def s5_def s6_def)
  have r6: "raised s6 = None" using ok s6 by simp
  have r5: "raised s5 = None" using r6 run_stmts_ok_pre[of "cell_6 w" s5] by (simp add: s6_def)
  have r4: "raised s4 = None" using r5 run_stmts_ok_pre[of "cell_5 w" s4] by (simp add: s5_def)
  have r3: "raised s3 = None" using r4 run_stmts_ok_pre[of "cell_4 w" s3] by (simp add: s4_def)
  have r2: "raised s2 = None" using r3 run_stmts_ok_pre[of "cell_3 w" s2] by (simp add: s3_def)
  have r1: "raised s1 = None" using r2 run_stmts_ok_pre[of "cell_2 w" s1] by (simp add: s2_def)
  have r0: "raised fresh_kernel = None" by (simp add: fresh_kernel_def)
  have e1: "s1 = fresh_kernel\<lparr>ROOT_DIR := Some (root_dir w), MODEL_DIR := Some (model_dir w),
       TRAINED_MODEL_PATH := Some (weights_path w), IMAGE_DIR := Some (image_dir w)\<rparr>"
    and px: "path_exists w (weights_path w)"
    using cell_1_ok[OF r0, of w] r1 by (simp_all add: s1_def)
  obtain g where e2: "s2 = s1\<lparr>config := Some (inference_config w),
        trace := trace s1 @ [ConfigDisplay (inference_config w)],
        environ := (environ s1)(''CUDA_DEVICE_ORDER'' \<mapsto> ''PCI_BUS_ID'', ''CUDA_VISIBLE_DEVICES'' \<mapsto> g)\<rparr>"
    using cell_2_ok[OF r1, of w] r2 by (auto simp: s2_def)
  have e3: "s3 = s2\<lparr>trace := trace s2 @ [MaskRCNN_init ''inference'' (model_dir w) (inference_config w),
        LoadWeights (weights_path w) True], model := Some ()\<rparr>"
    and m3: "MaskRCNN_raises w = None" and l3: "load_weights_raises w (weights_path w) = None"
    using cell_3_ok[OF r2, of "model_dir w" "inference_config w" "weights_path w" w] r3
    by (simp_all add: s3_def e2 e1)
  obtain ds where d4: "load_dataset w (dataset_root w) ''val'' = Inr ds"
    and e4: "s4 = s3\<lparr>dataset_root_dir := Some (dataset_root w),
       trace := trace s3 @ [LoadDataset (dataset_root w) ''val''],
       dataset_val := Some ds\<rparr>"
    using cell_4_ok[OF r3, of w] r4 by (auto simp: s4_def e3 e2 e1)
  obtain i info p1 img1 where f5:
      "randint (randint_raw w) 0 (int (length (image_info ds))) = Inr i"
      "py_getitem (image_info ds) i = Inr info"
      "py_dict_get info ''path'' = Inr p1" "imread w p1 = Inr img1"
    and e5: "s5 = s4\<lparr>random_val_img_info := Some info, trace := trace s4 @ [ImRead p1],
        image := Some img1\<rparr>"
    using cell_5_ok[OF r4, of ds w] r5 by (auto simp: s5_def e4)
  obtain fs f img where f6:
      "walk_files w (image_dir w) = Inr fs" "choice (choice_raw w) fs = Inr f"
      "imread w (path_join (image_dir w) f) = Inr img"
    and e6: "s6 = s5\<lparr>file_names := Some fs,
        trace := trace s5 @ [ImRead (path_join (image_dir w) f)], image := Some img\<rparr>"
    using cell_6_ok[OF r5, of "image_dir w" w] r6 by (auto simp: s6_def e5 e4 e3 e2 e1)
  have tr: "trace s6 = [ConfigDisplay (inference_config w),
         MaskRCNN_init ''inference'' (model_dir w) (inference_config w),
         LoadWeights (weights_path w) True,
         LoadDataset (dataset_root w) ''val'',
         ImRead p1,
         ImRead (path_join (image_dir w) f)]"
    by (simp add: e6 e5 e4 e3 e2 e1 fresh_kernel_def)
  have st: "model s6 = Some ()" "nb_state.image s6 = Some img" "dataset_val s6 = Some ds"
    by (simp_all add: e6 e5 e4 e3)
  show ?thesis
    unfolding s6 using px m3 l3 d4 f5 f6 tr st by blast
qed

subsection \<open>What the trace can contain\<close>


lemma quiet_run: "list_all quiet cs \<Longrightarrow> quiet (run_stmts cs)"
proof (induction cs)
  case Nil show ?case by (simp add: quiet_def)
next
  case (Cons c cs)
  then have c: "quiet c" and cs: "quiet (run_stmts cs)" by simp_all
  show ?case unfolding quiet_def
  proof (intro allI impI)
    fix s :: nb_state assume q: "\<forall>e\<in>set (trace s). \<not> is_detect e"
    show "\<forall>e\<in>set (trace (run_stmts (c # cs) s)). \<not> is_detect e"
    proof (cases "raised s = None")
      case True
      have "\<forall>e\<in>set (trace (c s)). \<not> is_detect e" using c q by (simp add: quiet_def)
      then have "\<forall>e\<in>set (trace (run_stmts cs (c s))). \<not> is_detect e"
        using cs by (simp add: quiet_def)
      then show ?thesis using True by simp
    next
      case False then show ?thesis using q by auto
    qed
  qed
qed

lemma grows_run: "list_all grows cs \<Longrightarrow> grows (run_stmts cs)"
proof (induction cs)
  case Nil show ?case by (simp add: grows_def)
next
  case (Cons c cs)
  then have c: "grows c" and cs: "grows (run_stmts cs)" by simp_all
  show ?case unfolding grows_def
  proof
    fix s :: nb_state
    obtain e1 where e1: "trace (c s) = trace s @ e1" using c by (auto simp: grows_def)
    obtain e2 where e2: "trace (run_stmts cs (c s)) = trace (c s) @ e2"
      using cs by (auto simp: grows_def)
    show "\<exists>ext. trace (run_stmts (c # cs) s) = trace s @ ext"
      using e1 e2 by (cases "raised s = None") auto
  qed
qed

lemma quiet_cell_1: "list_all quiet (cell_1 w)"
  by (simp add: cell_1_def quiet_def stmt_defs split: option.splits)

lemma quiet_cell_2: "list_all quiet (cell_2 w)"
  by (simp add: cell_2_def assign_DETECTION_MIN_CONFIDENCE_def quiet_def stmt_defs
       split: option.splits sum.splits pyval.splits)

lemma quiet_cell_3: "list_all quiet (cell_3 w)"
  by (simp add: cell_3_def quiet_def stmt_defs Let_def split: option.splits)

lemma quiet_cell_4: "list_all quiet (cell_4 w)"
  by (simp add: cell_4_def quiet_def stmt_defs split: option.splits sum.splits)

lemma quiet_cell_5: "list_all quiet (cell_5 w)"
  by (simp add: cell_5_def quiet_def stmt_defs split: option.splits sum.splits)

lemma quiet_cell_6: "list_all quiet (cell_6 w)"
  by (simp add: cell_6_def quiet_def stmt_defs split: option.splits sum.splits)

lemma grows_cell_7: "list_all grows (cell_7 w)"
  by (simp add: cell_7_def grows_def stmt_defs split: option.splits sum.splits)

lemma before_detect_quiet: "\<forall>e \<in> set (trace (before_detect w)). \<not> is_detect e"
proof -
  have "list_all quiet (cell_1 w @ cell_2 w @ cell_3 w @ cell_4 w @ cell_5 w @ cell_6 w)"
    by (simp add: quiet_cell_1 quiet_cell_2 quiet_cell_3 quiet_cell_4 quiet_cell_5 quiet_cell_6)
  then have "quiet (run_stmts (cell_1 w @ cell_2 w @ cell_3 w @ cell_4 w @ cell_5 w @ cell_6 w))"
    by (rule quiet_run)
  moreover have "\<forall>e \<in> set (trace fresh_kernel). \<not> is_detect e"
    by (simp add: fresh_kernel_def)
  ultimately show ?thesis
    unfolding quiet_def before_detect_def by blast
qed

lemma detect_after:
  assumes x: "x \<in> set xs" and q: "\<forall>e \<in> set xs. \<not> is_detect e"
    and eq: "xs @ ys = pre @ e # post" and d: "is_detect e"
  shows "x \<in> set pre"
proof -
  from eq obtain us where
    "(xs = pre @ us \<and> us @ ys = e # post) \<or> (xs @ us = pre \<and> ys = us @ e # post)"
    by (auto simp: append_eq_append_conv2)
  then show ?thesis
  proof
    assume a: "xs = pre @ us \<and> us @ ys = e # post"
    show ?thesis
    proof (cases us)
      case Nil
      then show ?thesis using a x by simp
    next
      case (Cons u us')
      then have "e \<in> set xs" using a by simp
      then show ?thesis using q d by blast
    qed
  next
    assume "xs @ us = pre \<and> ys = us @ e # post"
    then show ?thesis using x by auto
  qed
qed

subsection \<open>A complete run\<close>


lemma run_all_ok:
  assumes ok: "raised (run_all w) = None"
  shows "\<exists>ds info p1 img1 fs f img i rs d.
      load_dataset w (dataset_root w) ''val'' = Inr ds \<and>
      randint (randint_raw w) 0 (int (length (image_info ds))) = Inr i \<and>
      py_getitem (image_info ds) i = Inr info \<and>
      py_dict_get info ''path'' = Inr p1 \<and> imread w p1 = Inr img1 \<and>
      walk_files w (image_dir w) = Inr fs \<and> choice (choice_raw w) fs = Inr f \<and>
      imread w (path_join (image_dir w) f) = Inr img \<and>
      detect w [img] = Inr rs \<and> py_getitem rs 0 = Inr d \<and>
      nb_state.image (run_all w) = Some img \<and>
      trace (run_all w) =
        [ConfigDisplay (inference_config w),
         MaskRCNN_init ''inference'' (model_dir w) (inference_config w),
         LoadWeights (weights_path w) True,
         LoadDataset (dataset_root w) ''val'',
         ImRead p1,
         ImRead (path_join (image_dir w) f),
         Detect [img] 1,
         DisplayInstances img (rois d) (masks d) (class_ids d) (class_names ds) (scores d)]"
proof -
  have r6: "raised (before_detect w) = None"
    using ok run_stmts_ok_pre[of "cell_7 w" "before_detect w"] by (simp add: run_all_split)
  from before_detect_ok[OF r6] obtain ds info p1 img1 fs f img i where b:
      "load_dataset w (dataset_root w) ''val'' = Inr ds"
      "randint (randint_raw w) 0 (int (length (image_info ds))) = Inr i"
      "py_getitem (image_info ds) i = Inr info"
      "py_dict_get info ''path'' = Inr p1" "imread w p1 = Inr img1"
      "walk_files w (image_dir w) = Inr fs" "choice (choice_raw w) fs = Inr f"
      "imread w (path_join (image_dir w) f) = Inr img"
    and tr: "trace (before_detect w) =
        [ConfigDisplay (inference_config w),
         MaskRCNN_init ''inference'' (model_dir w) (inference_config w),
         LoadWeights (weights_path w) True,
         LoadDataset (dataset_root w) ''val'',
         ImRead p1,
         ImRead (path_join (image_dir w) f)]"
    and st: "model (before_detect w) = Some ()" "nb_state.image (before_detect w) = Some img"
      "dataset_val (before_detect w) = Some ds"
    by blast
  have ok7: "raised (run_stmts (cell_7 w) (before_detect w)) = None"
    using ok by (simp add: run_all_split)
  from cell_7_ok[OF r6 st ok7] obtain rs d where c:
      "detect w [img] = Inr rs" "py_getitem rs 0 = Inr d"
    and e7: "run_all w = (before_detect w)\<lparr>trace := trace (before_detect w) @ [Detect [img] 1,
               DisplayInstances img (rois d) (masks d) (class_ids d) (class_names ds) (scores d)],
           results := Some rs, r_res := Some d\<rparr>"
    by (auto simp: run_all_split)
  have t: "trace (run_all w) =
        [ConfigDisplay (inference_config w),
         MaskRCNN_init ''inference'' (model_dir w) (inference_config w),
         LoadWeights (weights_path w) True,
         LoadDataset (dataset_root w) ''val'',
         ImRead p1,
         ImRead (path_join (image_dir w) f),
         Detect [img] 1,
         DisplayInstances img (rois d) (masks d) (class_ids d) (class_names ds) (scores d)]"
    by (simp add: e7 tr)
  have im: "nb_state.image (run_all w) = Some img" by (simp add: e7 st)
  show ?thesis using b c t im by blast
qed

lemma detect_after_weights:
  assumes eq: "trace (run_all w) = pre @ e # post" and d: "is_detect e"
  shows "LoadWeights (weights_path w) True \<in> set pre \<and>
         MaskRCNN_init ''inference'' (model_dir w) (inference_config w) \<in> set pre \<and>
         load_weights_raises w (weights_path w) = None"
proof (cases "raised (before_detect w) = None")
  case False
  then have "run_all w = before_detect w"
    by (simp add: run_all_split run_stmts_raised)
  then have "e \<in> set (trace (before_detect w))" using eq by simp
  then show ?thesis using before_detect_quiet d by blast
next
  case True
  from before_detect_ok[OF True] obtain p1 f where
      lw: "load_weights_raises w (weights_path w) = None"
    and tr: "trace (before_detect w) =
        [ConfigDisplay (inference_config w),
         MaskRCNN_init ''inference'' (model_dir w) (inference_config w),
         LoadWeights (weights_path w) True,
         LoadDataset (dataset_root w) ''val'',
         ImRead p1,
         ImRead (path_join (image_dir w) f)]"
    by blast
  have "grows (run_stmts (cell_7 w))" by (rule grows_run) (rule grows_cell_7)
  then obtain ext where ext: "trace (run_all w) = trace (before_detect w) @ ext"
    by (auto simp: grows_def run_all_split)
  have q: "\<forall>e \<in> set (trace (before_detect w)). \<not> is_detect e" by (rule before_detect_quiet)
  have eq': "trace (before_detect w) @ ext = pre @ e # post" using eq ext by simp
  have "LoadWeights (weights_path w) True \<in> set (trace (before_detect w))"
    and "MaskRCNN_init ''inference'' (model_dir w) (inference_config w) \<in> set (trace (before_detect w))"
    by (simp_all add: tr)
  then show ?thesis using detect_after[OF _ q eq' d] lw by blast
qed

lemmas py_defs = py_getattr_def py_setattr_def py_dict_get_def py_getitem_def randint_def choice_def
lemmas nb_defs = run_all_def notebook_def cell_1_def cell_2_def cell_3_def cell_4_def cell_5_def
  cell_6_def cell_7_def fresh_kernel_def assign_DETECTION_MIN_CONFIDENCE_def

lemma demo_world_sel:
  "abspath demo_world = (\<lambda>_. ''/repo'')"
  "path_exists demo_world = (\<lambda>_. True)"
  "YCBVideoConfigInference demo_world =
     [''GPU_ID'' \<mapsto> PyStr ''0'', ''DETECTION_MIN_CONFIDENCE'' \<mapsto> PyFloat 0.9]"
  "MaskRCNN_raises demo_world = None"
  "load_weights_raises demo_world = (\<lambda>_. None)"
  "load_dataset demo_world = (\<lambda>_ _. Inr \<lparr>image_info = [[''path'' \<mapsto> ''/d/a.png'']],
                                      class_names = [''BG'', ''bottle'']\<rparr>)"
  "imread demo_world = (\<lambda>p. Inr (Pixels (if p = ''/d/a.png'' then [1, 1] else [2, 2])))"
  "walk_files demo_world = (\<lambda>_. Inr [''x.jpg''])"
  "randint_raw demo_world = 0"
  "choice_raw demo_world = 0"
  "detect demo_world = (\<lambda>imgs. Inr [\<lparr>rois = [[1, 2, 3, 4]], masks = [1], class_ids = [1], scores = [9]\<rparr>])"
  "display_instances_raises demo_world = None"
  by (simp_all add: demo_world_def)

lemma demo_world_run: "raised (run_all demo_world) = None"
  by (simp add: nb_defs stmt_defs py_defs demo_world_sel)


subsection \<open>Order of the steps\<close>

text \<open>
  Claim C2. Run from top to bottom, a run of the demo notebook that completes makes its
  external calls in one fixed order: the model is constructed in inference mode, the
  trained weights are loaded, the validation dataset is loaded, the two image reads are
  made, detection runs on the image read last, and the detection results are displayed.
  In every run, completed or not, a call of \<open>detect\<close> is preceded by the construction of
  the model and by a call of \<open>load_weights\<close> that returned without raising.
\<close>

theorem demo_steps_in_order:
  "(raised (run_all w) = None \<longrightarrow>
      (\<exists>p1 f img (d::detection) (ds::dataset).
         imread w (path_join (image_dir w) f) = Inr img \<and>
         trace (run_all w) =
           [ConfigDisplay (inference_config w),
            MaskRCNN_init ''inference'' (model_dir w) (inference_config w),
            LoadWeights (weights_path w) True,
            LoadDataset (dataset_root w) ''val'',
            ImRead p1,
            ImRead (path_join (image_dir w) f),
            Detect [img] 1,
            DisplayInstances img (rois d) (masks d) (class_ids d) (class_names ds) (scores d)]))
   \<and> (\<forall>pre e post.
        trace (run_all w) = pre @ e # post \<and> is_detect e \<longrightarrow>
          MaskRCNN_init ''inference'' (model_dir w) (inference_config w) \<in> set pre \<and>
          LoadWeights (weights_path w) True \<in> set pre \<and>
          load_weights_raises w (weights_path w) = None)"
proof (rule conjI)
  show "raised (run_all w) = None \<longrightarrow>
      (\<exists>p1 f img (d::detection) (ds::dataset).
         imread w (path_join (image_dir w) f) = Inr img \<and>
         trace (run_all w) =
           [ConfigDisplay (inference_config w),
            MaskRCNN_init ''inference'' (model_dir w) (inference_config w),
            LoadWeights (weights_path w) True,
            LoadDataset (dataset_root w) ''val'',
            ImRead p1,
            ImRead (path_join (image_dir w) f),
            Detect [img] 1,
            DisplayInstances img (rois d) (masks d) (class_ids d) (class_names ds) (scores d)])"
  proof (rule impI)
    assume "raised (run_all w) = None"
    from run_all_ok[OF this] obtain p1 f img and d :: detection and ds :: dataset where
        a: "imread w (path_join (image_dir w) f) = Inr img"
      and t: "trace (run_all w) =
           [ConfigDisplay (inference_config w),
            MaskRCNN_init ''inference'' (model_dir w) (inference_config w),
            LoadWeights (weights_path w) True,
            LoadDataset (dataset_root w) ''val'',
            ImRead p1,
            ImRead (path_join (image_dir w) f),
            Detect [img] 1,
            DisplayInstances img (rois d) (masks d) (class_ids d) (class_names ds) (scores d)]"
      by blast
    then show "\<exists>p1 f img (d::detection) (ds::dataset).
         imread w (path_join (image_dir w) f) = Inr img \<and>
         trace (run_all w) =
           [ConfigDisplay (inference_config w),
            MaskRCNN_init ''inference'' (model_dir w) (inference_config w),
            LoadWeights (weights_path w) True,
            LoadDataset (dataset_root w) ''val'',
            ImRead p1,
            ImRead (path_join (image_dir w) f),
            Detect [img] 1,
            DisplayInstances img (rois d) (masks d) (class_ids d) (class_names ds) (scores d)]"
      by (intro exI[of _ p1] exI[of _ f] exI[of _ img] exI[of _ d] exI[of _ ds] conjI)
  qed
  show "\<forall>pre e post.
        trace (run_all w) = pre @ e # post \<and> is_detect e \<longrightarrow>
          MaskRCNN_init ''inference'' (model_dir w) (inference_config w) \<in> set pre \<and>
          LoadWeights (weights_path w) True \<in> set pre \<and>
          load_weights_raises w (weights_path w) = None"
    using detect_after_weights[of w] by blast
qed

theorem demo_steps_in_order_witness:
  "raised (run_all demo_world) = None \<and>
   (\<exists>pre e post.
      trace (run_all demo_world) = pre @ e # post \<and> is_detect e \<and>
      length pre = 6 \<and>
      LoadWeights (weights_path demo_world) True \<in> set pre \<and>
      load_weights_raises demo_world (weights_path demo_world) = None)"
proof -
  have ok: "raised (run_all demo_world) = None" by (rule demo_world_run)
  from demo_steps_in_order[of demo_world] ok obtain p1 f img and d :: detection and ds :: dataset where
    t: "trace (run_all demo_world) =
           [ConfigDisplay (inference_config demo_world),
            MaskRCNN_init ''inference'' (model_dir demo_world) (inference_config demo_world),
            LoadWeights (weights_path demo_world) True,
            LoadDataset (dataset_root demo_world) ''val'',
            ImRead p1,
            ImRead (path_join (image_dir demo_world) f)] @
            Detect [img] 1 #
            [DisplayInstances img (rois d) (masks d) (class_ids d) (class_names ds) (scores d)]"
    by auto
  have d: "is_detect (Detect [img] 1)" by simp
  from demo_steps_in_order[of demo_world] t d
  have "LoadWeights (weights_path demo_world) True \<in> set
           [ConfigDisplay (inference_config demo_world),
            MaskRCNN_init ''inference'' (model_dir demo_world) (inference_config demo_world),
            LoadWeights (weights_path demo_world) True,
            LoadDataset (dataset_root demo_world) ''val'',
            ImRead p1,
            ImRead (path_join (image_dir demo_world) f)] \<and>
        load_weights_raises demo_world (weights_path demo_world) = None"
    by blast
  then show ?thesis using ok t d
    by (intro conjI exI[of _ "[ConfigDisplay (inference_config demo_world),
            MaskRCNN_init ''inference'' (model_dir demo_world) (inference_config demo_world),
            LoadWeights (weights_path demo_world) True,
            LoadDataset (dataset_root demo_world) ''val'',
            ImRead p1,
            ImRead (path_join (image_dir demo_world) f)]"] exI[of _ "Detect [img] 1"]
            exI[of _ "[DisplayInstances img (rois d) (masks d) (class_ids d) (class_names ds) (scores d)]"])
       simp_all
qed


subsection \<open>Missing weights file\<close>

text \<open>
  Claim C3. If the trained weights file does not exist at the path the notebook builds,
  the run ends with an uncaught \<open>AssertionError\<close> raised by the \<open>assert\<close> of the first
  cell: the model object has not been constructed, no call of the model library has been
  made, and nothing after the assertion runs (no recovery or retry).
\<close>

theorem missing_weights_assertion_error:
  "\<not> path_exists w (weights_path w) \<Longrightarrow>
     raised (run_all w) = Some AssertionError \<and>
     trace (run_all w) = [] \<and>
     model (run_all w) = None \<and>
     config (run_all w) = None \<and>
     IMAGE_DIR (run_all w) = None"
  by (simp add: run_all_def notebook_def cell_1_def fresh_kernel_def stmt_defs path_defs)

theorem missing_weights_assertion_error_witness:
  "\<not> path_exists (demo_world\<lparr>path_exists := (\<lambda>_. False)\<rparr>)
        (weights_path (demo_world\<lparr>path_exists := (\<lambda>_. False)\<rparr>)) \<and>
   raised (run_all (demo_world\<lparr>path_exists := (\<lambda>_. False)\<rparr>)) = Some AssertionError \<and>
   trace (run_all (demo_world\<lparr>path_exists := (\<lambda>_. False)\<rparr>)) = []"
  using missing_weights_assertion_error [of "demo_world\<lparr>path_exists := (\<lambda>_. False)\<rparr>"]
  by simp

subsection \<open>Which image is detected\<close>

text \<open>
  Claim C7. In a completed top-to-bottom run the image passed to \<open>model.detect\<close> and to
  \<open>display_instances\<close> is the one read in cell 6 from a file of the images directory
  chosen with \<open>random.choice\<close>. The image read in cell 5 from the validation record is
  overwritten in the variable \<open>image\<close>: the only \<open>detect\<close> and \<open>display_instances\<close>
  calls of the run take the image of cell 6.
\<close>

theorem detect_uses_images_dir_image:
  "raised (run_all w) = None \<Longrightarrow>
     \<exists>ds i info p1 img1 fs f img rs d.
       load_dataset w (dataset_root w) ''val'' = Inr ds \<and>
       py_getitem (image_info ds) i = Inr info \<and>
       py_dict_get info ''path'' = Inr p1 \<and>
       imread w p1 = Inr img1 \<and>
       walk_files w (image_dir w) = Inr fs \<and>
       choice (choice_raw w) fs = Inr f \<and>
       imread w (path_join (image_dir w) f) = Inr img \<and>
       detect w [img] = Inr rs \<and>
       py_getitem rs 0 = Inr d \<and>
       nb_state.image (run_all w) = Some img \<and>
       trace (run_all w) =
         [ConfigDisplay (inference_config w),
          MaskRCNN_init ''inference'' (model_dir w) (inference_config w),
          LoadWeights (weights_path w) True,
          LoadDataset (dataset_root w) ''val'',
          ImRead p1,
          ImRead (path_join (image_dir w) f),
          Detect [img] 1,
          DisplayInstances img (rois d) (masks d) (class_ids d) (class_names ds) (scores d)]"
proof -
  assume "raised (run_all w) = None"
  from run_all_ok[OF this] obtain ds info p1 img1 fs f img i rs d where
      "load_dataset w (dataset_root w) ''val'' = Inr ds"
      "py_getitem (image_info ds) i = Inr info"
      "py_dict_get info ''path'' = Inr p1"
      "imread w p1 = Inr img1"
      "walk_files w (image_dir w) = Inr fs"
      "choice (choice_raw w) fs = Inr f"
      "imread w (path_join (image_dir w) f) = Inr img"
      "detect w [img] = Inr rs"
      "py_getitem rs 0 = Inr d"
      "nb_state.image (run_all w) = Some img"
      "trace (run_all w) =
         [ConfigDisplay (inference_config w),
          MaskRCNN_init ''inference'' (model_dir w) (inference_config w),
          LoadWeights (weights_path w) True,
          LoadDataset (dataset_root w) ''val'',
          ImRead p1,
          ImRead (path_join (image_dir w) f),
          Detect [img] 1,
          DisplayInstances img (rois d) (masks d) (class_ids d) (class_names ds) (scores d)]"
    by blast
  then show ?thesis
    by (intro exI[of _ ds] exI[of _ i] exI[of _ info] exI[of _ p1] exI[of _ img1]
          exI[of _ fs] exI[of _ f] exI[of _ img] exI[of _ rs] exI[of _ d] conjI)
qed

theorem detect_uses_images_dir_image_witness:
  "raised (run_all demo_world) = None \<and>
   imread demo_world ''/d/a.png'' = Inr (Pixels [1, 1]) \<and>
   nb_state.image (run_all demo_world) = Some (Pixels [2, 2]) \<and>
   Detect [Pixels [2, 2]] 1 \<in> set (trace (run_all demo_world)) \<and>
   Detect [Pixels [1, 1]] 1 \<notin> set (trace (run_all demo_world))"
proof -
  have ok: "raised (run_all demo_world) = None" by (rule demo_world_run)
  from detect_uses_images_dir_image[OF ok] obtain ds i info p1 img1 fs f img rs d where
      ds: "load_dataset demo_world (dataset_root demo_world) ''val'' = Inr ds"
    and info: "py_getitem (image_info ds) i = Inr info"
    and p1: "py_dict_get info ''path'' = Inr p1"
    and img1: "imread demo_world p1 = Inr img1"
    and fs: "walk_files demo_world (image_dir demo_world) = Inr fs"
    and f: "choice (choice_raw demo_world) fs = Inr f"
    and img: "imread demo_world (path_join (image_dir demo_world) f) = Inr img"
    and rs: "detect demo_world [img] = Inr rs" "py_getitem rs 0 = Inr d"
    and im: "nb_state.image (run_all demo_world) = Some img"
    and t: "trace (run_all demo_world) =
         [ConfigDisplay (inference_config demo_world),
          MaskRCNN_init ''inference'' (model_dir demo_world) (inference_config demo_world),
          LoadWeights (weights_path demo_world) True,
          LoadDataset (dataset_root demo_world) ''val'',
          ImRead p1,
          ImRead (path_join (image_dir demo_world) f),
          Detect [img] 1,
          DisplayInstances img (rois d) (masks d) (class_ids d) (class_names ds) (scores d)]"
    by blast
  have "fs = [''x.jpg'']" using fs by (simp add: demo_world_sel)
  then have "f = ''x.jpg''" using f by (simp add: choice_def)
  then have "img = Pixels [2, 2]"
    using img by (simp add: demo_world_sel path_defs path_join_def)
  then show ?thesis using ok im t by (simp add: demo_world_sel)
qed

subsection \<open>The random validation record\<close>

text \<open>
  Claim C4 says that the index drawn by \<open>random.randint(0, len(dataset_val.image_info))\<close>
  is always a valid index of a non-empty \<open>image_info\<close>. \<open>randint\<close> includes its upper
  bound, so the draw can be the length of the list. With a validation set of one record
  and the draw \<open>1\<close>, the lookup of cell 5 raises \<open>IndexError\<close>: the run ends there and
  \<open>random_val_img_info\<close> is never bound.
\<close>

theorem random_val_index_out_of_range:
  "load_dataset (demo_world\<lparr>randint_raw := 1\<rparr>) (dataset_root (demo_world\<lparr>randint_raw := 1\<rparr>)) ''val''
     = Inr \<lparr>image_info = [[''path'' \<mapsto> ''/d/a.png'']], class_names = [''BG'', ''bottle'']\<rparr> \<and>
   randint (randint_raw (demo_world\<lparr>randint_raw := 1\<rparr>)) 0
      (int (length [[''path'' \<mapsto> ''/d/a.png'']])) = Inr 1 \<and>
   py_getitem [[''path'' \<mapsto> ''/d/a.png'']] 1 = Inl IndexError \<and>
   raised (run_all (demo_world\<lparr>randint_raw := 1\<rparr>)) = Some IndexError \<and>
   random_val_img_info (run_all (demo_world\<lparr>randint_raw := 1\<rparr>)) = None"
  by (simp add: nb_defs stmt_defs py_defs demo_world_sel)


subsection \<open>Overriding the detection confidence\<close>

text \<open>
  Claim C6. The assignment \<open>config.DETECTION_MIN_CONFIDENCE = 0.8\<close> changes that attribute
  of the configuration object and nothing else: every other attribute keeps its value and
  no other notebook variable changes. In particular the \<open>GPU_ID\<close> that cell 2 then copies
  into \<open>CUDA_VISIBLE_DEVICES\<close> is the one the configuration was constructed with.
\<close>

theorem assign_min_confidence_frame:
  "(config s = Some c \<longrightarrow>
     (\<exists>c'. assign_DETECTION_MIN_CONFIDENCE s = s\<lparr>config := Some c'\<rparr> \<and>
           c' ''DETECTION_MIN_CONFIDENCE'' = Some (PyFloat 0.8) \<and>
           (\<forall>k. k \<noteq> ''DETECTION_MIN_CONFIDENCE'' \<longrightarrow> c' k = c k))) \<and>
   (raised s = None \<and> raised (run_stmts (cell_2 w) s) = None \<longrightarrow>
     (\<exists>g. YCBVideoConfigInference w ''GPU_ID'' = Some (PyStr g) \<and>
          environ (run_stmts (cell_2 w) s) ''CUDA_VISIBLE_DEVICES'' = Some g))"
proof (rule conjI)
  show "config s = Some c \<longrightarrow>
     (\<exists>c'. assign_DETECTION_MIN_CONFIDENCE s = s\<lparr>config := Some c'\<rparr> \<and>
           c' ''DETECTION_MIN_CONFIDENCE'' = Some (PyFloat 0.8) \<and>
           (\<forall>k. k \<noteq> ''DETECTION_MIN_CONFIDENCE'' \<longrightarrow> c' k = c k))"
  proof (rule impI)
    assume c: "config s = Some c"
    show "\<exists>c'. assign_DETECTION_MIN_CONFIDENCE s = s\<lparr>config := Some c'\<rparr> \<and>
           c' ''DETECTION_MIN_CONFIDENCE'' = Some (PyFloat 0.8) \<and>
           (\<forall>k. k \<noteq> ''DETECTION_MIN_CONFIDENCE'' \<longrightarrow> c' k = c k)"
      using c
      by (intro exI[of _ "c(''DETECTION_MIN_CONFIDENCE'' \<mapsto> PyFloat 0.8)"])
         (simp add: assign_DETECTION_MIN_CONFIDENCE_def rd_def py_setattr_def)
  qed
  show "raised s = None \<and> raised (run_stmts (cell_2 w) s) = None \<longrightarrow>
     (\<exists>g. YCBVideoConfigInference w ''GPU_ID'' = Some (PyStr g) \<and>
          environ (run_stmts (cell_2 w) s) ''CUDA_VISIBLE_DEVICES'' = Some g)"
  proof (rule impI)
    assume a: "raised s = None \<and> raised (run_stmts (cell_2 w) s) = None"
    then obtain g where "YCBVideoConfigInference w ''GPU_ID'' = Some (PyStr g)"
      and "run_stmts (cell_2 w) s =
     s\<lparr>config := Some (inference_config w),
        trace := trace s @ [ConfigDisplay (inference_config w)],
        environ := (environ s)(''CUDA_DEVICE_ORDER'' \<mapsto> ''PCI_BUS_ID'', ''CUDA_VISIBLE_DEVICES'' \<mapsto> g)\<rparr>"
      using cell_2_ok[of s w] by blast
    then show "\<exists>g. YCBVideoConfigInference w ''GPU_ID'' = Some (PyStr g) \<and>
          environ (run_stmts (cell_2 w) s) ''CUDA_VISIBLE_DEVICES'' = Some g"
      by simp
  qed
qed

theorem assign_min_confidence_frame_witness:
  "config (fresh_kernel\<lparr>config := Some (YCBVideoConfigInference demo_world)\<rparr>)
      = Some (YCBVideoConfigInference demo_world) \<and>
   YCBVideoConfigInference demo_world ''DETECTION_MIN_CONFIDENCE'' = Some (PyFloat 0.9) \<and>
   ''GPU_ID'' \<noteq> ''DETECTION_MIN_CONFIDENCE'' \<and>
   (\<exists>c'. config (assign_DETECTION_MIN_CONFIDENCE
               (fresh_kernel\<lparr>config := Some (YCBVideoConfigInference demo_world)\<rparr>)) = Some c' \<and>
         c' ''DETECTION_MIN_CONFIDENCE'' = Some (PyFloat 0.8) \<and>
         c' ''GPU_ID'' = Some (PyStr ''0'')) \<and>
   raised fresh_kernel = None \<and>
   raised (run_stmts (cell_2 demo_world) fresh_kernel) = None \<and>
   environ (run_stmts (cell_2 demo_world) fresh_kernel) ''CUDA_VISIBLE_DEVICES'' = Some ''0''"
proof -
  let ?s = "fresh_kernel\<lparr>config := Some (YCBVideoConfigInference demo_world)\<rparr>"
  have c: "config ?s = Some (YCBVideoConfigInference demo_world)" by simp
  from assign_min_confidence_frame[of ?s "YCBVideoConfigInference demo_world" demo_world] c
  obtain c' where 1: "assign_DETECTION_MIN_CONFIDENCE ?s = ?s\<lparr>config := Some c'\<rparr>"
    and 2: "c' ''DETECTION_MIN_CONFIDENCE'' = Some (PyFloat 0.8)"
    and 3: "\<forall>k. k \<noteq> ''DETECTION_MIN_CONFIDENCE'' \<longrightarrow> c' k = YCBVideoConfigInference demo_world k"
    by blast
  have ne: "''GPU_ID'' \<noteq> ''DETECTION_MIN_CONFIDENCE''" by simp
  have 4: "c' ''GPU_ID'' = Some (PyStr ''0'')" using 3 ne by (simp add: demo_world_sel)
  have r0: "raised fresh_kernel = None" by (simp add: fresh_kernel_def)
  have r2: "raised (run_stmts (cell_2 demo_world) fresh_kernel) = None"
    by (simp add: cell_2_def assign_DETECTION_MIN_CONFIDENCE_def fresh_kernel_def stmt_defs py_defs demo_world_sel)
  from assign_min_confidence_frame[of fresh_kernel "Map.empty" demo_world] r0 r2
  have 5: "environ (run_stmts (cell_2 demo_world) fresh_kernel) ''CUDA_VISIBLE_DEVICES'' = Some ''0''"
    by (simp add: demo_world_sel)
  have 6: "config (assign_DETECTION_MIN_CONFIDENCE ?s) = Some c'" using 1 by simp
  show ?thesis using c ne 2 4 5 6 r0 r2 by (simp add: demo_world_sel)
qed

section \<open>Properties of the command line\<close>

subsection \<open>What the parser keeps\<close>

lemma parse_tokens_positionals:
  "parse_tokens ts ns = Inr ns' \<Longrightarrow> ns_positionals ns' = ns_positionals ns @ positional_tokens ts"
proof (induction ts ns rule: parse_tokens.induct)
  case (1 ns)
  then show ?case by simp
next
  case (2 t ns)
  then show ?case by (auto split: if_splits)
next
  case (3 t v rest ns)
  show ?case
  proof (cases "is_flag t")
    case True
    with 3 show ?thesis
      by (auto simp: store_option_def split: if_splits option.splits)
  next
    case False
    then have nh: "t \<noteq> ''-h''" "t \<noteq> ''--help''" by (auto simp: is_flag_def)
    with 3 False show ?thesis by auto
  qed
qed

lemma parse_tokens_weights:
  "parse_tokens ts ns = Inr ns' \<Longrightarrow> ''--weights'' \<notin> set ts \<Longrightarrow> ns_weights ns' = ns_weights ns"
proof (induction ts ns rule: parse_tokens.induct)
  case (1 ns)
  then show ?case by simp
next
  case (2 t ns)
  then show ?case by (auto split: if_splits)
next
  case (3 t v rest ns)
  show ?case
  proof (cases "is_flag t")
    case True
    with 3 show ?thesis
      by (auto simp: store_option_def split: if_splits option.splits)
  next
    case False
    then have nh: "t \<noteq> ''-h''" "t \<noteq> ''--help''" by (auto simp: is_flag_def)
    with 3 False show ?thesis by auto
  qed
qed

lemma not_flag_not_help: "\<not> is_flag t \<Longrightarrow> t \<noteq> ''-h'' \<and> t \<noteq> ''--help''"
  by (auto simp: is_flag_def)

lemma parse_tokens_options_ok:
  "parse_tokens ts ns = Inr ns' \<Longrightarrow> options_ok ts"
proof (induction ts ns rule: parse_tokens.induct)
  case (1 ns)
  then show ?case by simp
next
  case (2 t ns)
  then show ?case by (auto split: if_splits)
next
  case (3 t v rest ns)
  show ?case
  proof (cases "is_flag t")
    case True
    with 3 show ?thesis
      by (auto simp: store_option_def split: if_splits option.splits)
  next
    case False
    with 3 not_flag_not_help[OF False] show ?thesis by auto
  qed
qed

lemma options_ok_parse_tokens:
  "options_ok ts \<Longrightarrow> \<exists>ns'. parse_tokens ts ns = Inr ns'"
proof (induction ts ns rule: parse_tokens.induct)
  case (1 ns)
  then show ?case by simp
next
  case (2 t ns)
  then show ?case using not_flag_not_help[of t] by auto
next
  case (3 t v rest ns)
  show ?case
  proof (cases "is_flag t")
    case True
    with 3 show ?thesis
      by (auto simp: store_option_def)
  next
    case False
    with 3 not_flag_not_help[OF False] show ?thesis by auto
  qed
qed

lemma parse_tokens_values:
  "parse_tokens ts ns = Inr ns' \<Longrightarrow>
     ns_dataset ns' = (case option_value ''--dataset'' ts of None \<Rightarrow> ns_dataset ns | Some x \<Rightarrow> Some x) \<and>
     ns_weights ns' = (case option_value ''--weights'' ts of None \<Rightarrow> ns_weights ns | Some x \<Rightarrow> Some x) \<and>
     ns_logs ns' = (case option_value ''--logs'' ts of None \<Rightarrow> ns_logs ns | Some x \<Rightarrow> x) \<and>
     ns_image ns' = (case option_value ''--image'' ts of None \<Rightarrow> ns_image ns | Some x \<Rightarrow> Some x) \<and>
     ns_video ns' = (case option_value ''--video'' ts of None \<Rightarrow> ns_video ns | Some x \<Rightarrow> Some x)"
proof (induction ts ns rule: parse_tokens.induct)
  case (1 ns)
  then show ?case by simp
next
  case (2 t ns)
  then show ?case by (auto split: if_splits)
next
  case (3 t v rest ns)
  show ?case
  proof (cases "is_flag t")
    case True
    with 3 show ?thesis
      by (auto simp: store_option_def split: if_splits option.splits)
  next
    case False
    with 3 not_flag_not_help[OF False] show ?thesis by (auto split: option.splits)
  qed
qed

lemma case_option_id: "(case x of None \<Rightarrow> None | Some y \<Rightarrow> Some y) = x"
  by (cases x) simp_all

lemma initial_namespace_fields:
  "ns_dataset initial_namespace = None" "ns_weights initial_namespace = None"
  "ns_logs initial_namespace = ''logs/''" "ns_image initial_namespace = None"
  "ns_video initial_namespace = None" "ns_positionals initial_namespace = []"
  by (simp_all add: initial_namespace_def)

subsection \<open>The arguments\<close>

text \<open>
  Claim C1. A command line is accepted exactly when it is well formed (every option on it
  is one of \<open>--dataset\<close>, \<open>--weights\<close>, \<open>--logs\<close>, \<open>--image\<close>, \<open>--video\<close> and has
  a value), it gives \<open>--weights\<close>, and it has exactly one positional argument, the
  command, which is \<open>train\<close>, \<open>splash\<close> or \<open>evaluate\<close>. Every other command line is
  rejected. On an accepted command line each of the four optional options holds the value
  given to it, or is unset if it was not given; \<open>--logs\<close> holds the given value, or
  \<open>logs/\<close> if it was not given; \<open>--weights\<close> holds its value, a path or \<open>coco\<close>.
  In particular \<open>--weights\<close> and a command alone are accepted, with all defaults.
\<close>

theorem cli_surface:
  "(parse_args argv = Inr a \<longrightarrow>
      options_ok argv \<and>
      positional_tokens argv = [arg_command a] \<and>
      arg_command a \<in> {''train'', ''splash'', ''evaluate''} \<and>
      ''--weights'' \<in> set argv \<and>
      option_value ''--weights'' argv = Some (arg_weights a) \<and>
      arg_dataset a = option_value ''--dataset'' argv \<and>
      arg_image a = option_value ''--image'' argv \<and>
      arg_video a = option_value ''--video'' argv \<and>
      arg_logs a = (case option_value ''--logs'' argv of None \<Rightarrow> ''logs/'' | Some l \<Rightarrow> l)) \<and>
   (options_ok argv \<and> option_value ''--weights'' argv \<noteq> None \<and>
      (\<exists>c \<in> {''train'', ''splash'', ''evaluate''}. positional_tokens argv = [c]) \<longrightarrow>
      (\<exists>a'. parse_args argv = Inr a')) \<and>
   (\<not> (options_ok argv \<and> option_value ''--weights'' argv \<noteq> None \<and>
       (\<exists>c \<in> {''train'', ''splash'', ''evaluate''}. positional_tokens argv = [c])) \<longrightarrow>
      (\<exists>e. parse_args argv = Inl e)) \<and>
   (cmd \<in> {''train'', ''splash'', ''evaluate''} \<and> \<not> is_flag wt \<longrightarrow>
      parse_args [''--weights'', wt, cmd] =
        Inr \<lparr> arg_command = cmd, arg_dataset = None, arg_weights = wt,
              arg_logs = ''logs/'', arg_image = None, arg_video = None \<rparr>)"
proof -
  have acc: "options_ok argv \<and>
      positional_tokens argv = [arg_command b] \<and>
      arg_command b \<in> {''train'', ''splash'', ''evaluate''} \<and>
      ''--weights'' \<in> set argv \<and>
      option_value ''--weights'' argv = Some (arg_weights b) \<and>
      arg_dataset b = option_value ''--dataset'' argv \<and>
      arg_image b = option_value ''--image'' argv \<and>
      arg_video b = option_value ''--video'' argv \<and>
      arg_logs b = (case option_value ''--logs'' argv of None \<Rightarrow> ''logs/'' | Some l \<Rightarrow> l)"
    if ok: "parse_args argv = Inr b" for b
  proof -
    from ok obtain ns where ns: "parse_tokens argv initial_namespace = Inr ns"
      by (cases "parse_tokens argv initial_namespace") (simp_all add: parse_args_def)
    from ok ns obtain wt where wt: "ns_weights ns = Some wt"
      by (cases "ns_weights ns") (simp_all add: parse_args_def)
    from ok ns wt obtain c where c: "ns_positionals ns = [c]"
      by (cases "ns_positionals ns") (simp_all add: parse_args_def split: list.splits)
    from ok ns wt c have cm: "c \<in> set commands"
      by (cases "c \<in> set commands") (simp_all add: parse_args_def)
    from ok ns wt c cm
    have b: "b = \<lparr> arg_command = c, arg_dataset = ns_dataset ns, arg_weights = wt,
                    arg_logs = ns_logs ns, arg_image = ns_image ns, arg_video = ns_video ns \<rparr>"
      by (simp add: parse_args_def)
    have p: "positional_tokens argv = [c]"
      using parse_tokens_positionals[OF ns] c by (simp add: initial_namespace_def)
    have w: "''--weights'' \<in> set argv"
    proof (rule ccontr)
      assume "''--weights'' \<notin> set argv"
      from parse_tokens_weights[OF ns this] wt show False
        by (simp add: initial_namespace_def)
    qed
    have o: "options_ok argv" by (rule parse_tokens_options_ok[OF ns])
    have v: "ns_dataset ns = option_value ''--dataset'' argv"
      "ns_weights ns = option_value ''--weights'' argv"
      "ns_logs ns = (case option_value ''--logs'' argv of None \<Rightarrow> ''logs/'' | Some l \<Rightarrow> l)"
      "ns_image ns = option_value ''--image'' argv"
      "ns_video ns = option_value ''--video'' argv"
      using parse_tokens_values[OF ns, unfolded initial_namespace_fields case_option_id]
      by simp_all
    show ?thesis using p w o cm v wt by (simp add: b commands_def)
  qed
  have tot: "\<exists>a'. parse_args argv = Inr a'"
    if h: "options_ok argv \<and> option_value ''--weights'' argv \<noteq> None \<and>
      (\<exists>c \<in> {''train'', ''splash'', ''evaluate''}. positional_tokens argv = [c])"
  proof -
    from h options_ok_parse_tokens[of argv initial_namespace]
    obtain ns where ns: "parse_tokens argv initial_namespace = Inr ns" by blast
    from h obtain wt where "option_value ''--weights'' argv = Some wt" by auto
    then have wt: "ns_weights ns = Some wt"
      using parse_tokens_values[OF ns, unfolded initial_namespace_fields case_option_id] by simp
    from h obtain c where c: "c \<in> {''train'', ''splash'', ''evaluate''}"
      and pc: "positional_tokens argv = [c]" by blast
    have "ns_positionals ns = [c]"
      using parse_tokens_positionals[OF ns] pc by (simp add: initial_namespace_def)
    then show ?thesis using ns wt c by (auto simp: parse_args_def commands_def)
  qed
  have rej: "\<exists>e. parse_args argv = Inl e"
    if h: "\<not> (options_ok argv \<and> option_value ''--weights'' argv \<noteq> None \<and>
       (\<exists>c \<in> {''train'', ''splash'', ''evaluate''}. positional_tokens argv = [c]))"
  proof (cases "parse_args argv")
    case (Inl e)
    then show ?thesis by blast
  next
    case (Inr b)
    note f = acc[OF Inr]
    have 1: "options_ok argv" using f by (rule conjunct1)
    have 2: "option_value ''--weights'' argv \<noteq> None" using f by simp
    have "arg_command b \<in> {''train'', ''splash'', ''evaluate''}"
      and "positional_tokens argv = [arg_command b]" using f by blast+
    then have 3: "\<exists>c \<in> {''train'', ''splash'', ''evaluate''}. positional_tokens argv = [c]"
      by (rule bexI[rotated])
    from 1 2 3 have "options_ok argv \<and> option_value ''--weights'' argv \<noteq> None \<and>
       (\<exists>c \<in> {''train'', ''splash'', ''evaluate''}. positional_tokens argv = [c])"
      by (intro conjI)
    with h show ?thesis by (rule notE)
  qed
  have dflt: "parse_args [''--weights'', wt, cmd] =
        Inr \<lparr> arg_command = cmd, arg_dataset = None, arg_weights = wt,
              arg_logs = ''logs/'', arg_image = None, arg_video = None \<rparr>"
    if h: "cmd \<in> {''train'', ''splash'', ''evaluate''} \<and> \<not> is_flag wt"
  proof -
    from h have nf: "\<not> is_flag wt" and c: "cmd \<in> set commands"
      by (simp_all add: commands_def)
    have cf: "\<not> is_flag cmd" "cmd \<noteq> ''-h''" "cmd \<noteq> ''--help''"
      using c by (auto simp: commands_def is_flag_def)
    have w: "is_flag ''--weights''" by (simp add: is_flag_def)
    have "parse_tokens [''--weights'', wt, cmd] initial_namespace =
            Inr (initial_namespace\<lparr>ns_weights := Some wt, ns_positionals := [cmd]\<rparr>)"
      by (simp add: w nf cf store_option_def initial_namespace_fields)
    then show ?thesis
      by (simp add: parse_args_def c initial_namespace_fields)
  qed
  show ?thesis
  proof (intro conjI)
    show "parse_args argv = Inr a \<longrightarrow>
      options_ok argv \<and>
      positional_tokens argv = [arg_command a] \<and>
      arg_command a \<in> {''train'', ''splash'', ''evaluate''} \<and>
      ''--weights'' \<in> set argv \<and>
      option_value ''--weights'' argv = Some (arg_weights a) \<and>
      arg_dataset a = option_value ''--dataset'' argv \<and>
      arg_image a = option_value ''--image'' argv \<and>
      arg_video a = option_value ''--video'' argv \<and>
      arg_logs a = (case option_value ''--logs'' argv of None \<Rightarrow> ''logs/'' | Some l \<Rightarrow> l)"
      using acc[of a] by (rule impI)
    show "options_ok argv \<and> option_value ''--weights'' argv \<noteq> None \<and>
      (\<exists>c \<in> {''train'', ''splash'', ''evaluate''}. positional_tokens argv = [c]) \<longrightarrow>
      (\<exists>a'. parse_args argv = Inr a')"
      using tot by (rule impI)
    show "\<not> (options_ok argv \<and> option_value ''--weights'' argv \<noteq> None \<and>
       (\<exists>c \<in> {''train'', ''splash'', ''evaluate''}. positional_tokens argv = [c])) \<longrightarrow>
      (\<exists>e. parse_args argv = Inl e)"
      using rej by (rule impI)
    show "cmd \<in> {''train'', ''splash'', ''evaluate''} \<and> \<not> is_flag wt \<longrightarrow>
      parse_args [''--weights'', wt, cmd] =
        Inr \<lparr> arg_command = cmd, arg_dataset = None, arg_weights = wt,
              arg_logs = ''logs/'', arg_image = None, arg_video = None \<rparr>"
      using dflt by (rule impI)
  qed
qed

theorem cli_surface_witness:
  "parse_args [''--dataset'', ''/data/ycb'', ''--weights'', ''coco'', ''--logs'', ''/my/logs'',
               ''--video'', ''v.avi'', ''splash''] =
     Inr \<lparr> arg_command = ''splash'', arg_dataset = Some ''/data/ycb'', arg_weights = ''coco'',
           arg_logs = ''/my/logs'', arg_image = None, arg_video = Some ''v.avi'' \<rparr> \<and>
   options_ok [''--dataset'', ''/data/ycb'', ''--weights'', ''coco'', ''--logs'', ''/my/logs'',
               ''--video'', ''v.avi'', ''splash''] \<and>
   option_value ''--weights'' [''--dataset'', ''/data/ycb'', ''--weights'', ''coco'', ''--logs'',
               ''/my/logs'', ''--video'', ''v.avi'', ''splash''] \<noteq> None \<and>
   positional_tokens [''--dataset'', ''/data/ycb'', ''--weights'', ''coco'', ''--logs'', ''/my/logs'',
               ''--video'', ''v.avi'', ''splash''] = [''splash''] \<and>
   \<not> (options_ok [''--dataset'', ''/data/ycb'', ''train''] \<and>
      option_value ''--weights'' [''--dataset'', ''/data/ycb'', ''train''] \<noteq> None \<and>
      (\<exists>c \<in> {''train'', ''splash'', ''evaluate''}.
          positional_tokens [''--dataset'', ''/data/ycb'', ''train''] = [c])) \<and>
   (\<exists>e. parse_args [''--dataset'', ''/data/ycb'', ''train''] = Inl e) \<and>
   ''evaluate'' \<in> {''train'', ''splash'', ''evaluate''} \<and> \<not> is_flag ''w.h5'' \<and>
   parse_args [''--weights'', ''w.h5'', ''evaluate''] =
     Inr \<lparr> arg_command = ''evaluate'', arg_dataset = None, arg_weights = ''w.h5'',
           arg_logs = ''logs/'', arg_image = None, arg_video = None \<rparr>"
proof -
  let ?line = "[''--dataset'', ''/data/ycb'', ''--weights'', ''coco'', ''--logs'', ''/my/logs'',
               ''--video'', ''v.avi'', ''splash'']"
  let ?bad = "[''--dataset'', ''/data/ycb'', ''train'']"
  have pre: "options_ok ?line" "option_value ''--weights'' ?line \<noteq> None"
    "positional_tokens ?line = [''splash'']"
    by (simp_all add: is_flag_def)
  have vals: "option_value ''--dataset'' ?line = Some ''/data/ycb''"
    "option_value ''--weights'' ?line = Some ''coco''"
    "option_value ''--logs'' ?line = Some ''/my/logs''"
    "option_value ''--image'' ?line = None"
    "option_value ''--video'' ?line = Some ''v.avi''"
    by (simp_all add: is_flag_def)
  have "\<exists>a'. parse_args ?line = Inr a'"
    by (rule cli_surface[THEN conjunct2, THEN conjunct1, rule_format]) (simp add: is_flag_def)
  then obtain a' where a': "parse_args ?line = Inr a'" ..
  note acc = cli_surface[of ?line a', THEN conjunct1, rule_format, OF a']
  have f: "arg_command a' = ''splash''" "arg_dataset a' = Some ''/data/ycb''"
    "arg_weights a' = ''coco''" "arg_logs a' = ''/my/logs''" "arg_image a' = None"
    "arg_video a' = Some ''v.avi''"
    using acc unfolding vals pre by simp_all
  have eq: "a' = \<lparr> arg_command = ''splash'', arg_dataset = Some ''/data/ycb'', arg_weights = ''coco'',
           arg_logs = ''/my/logs'', arg_image = None, arg_video = Some ''v.avi'' \<rparr>"
    using f by (cases a') simp
  have nb: "\<not> (options_ok ?bad \<and> option_value ''--weights'' ?bad \<noteq> None \<and>
      (\<exists>c \<in> {''train'', ''splash'', ''evaluate''}. positional_tokens ?bad = [c]))"
    by (simp add: is_flag_def)
  have rej: "\<exists>e. parse_args ?bad = Inl e"
    by (rule cli_surface[THEN conjunct2, THEN conjunct2, THEN conjunct1, rule_format])
       (rule nb)
  have g: "''evaluate'' \<in> {''train'', ''splash'', ''evaluate''} \<and> \<not> is_flag ''w.h5''"
    by (simp add: is_flag_def)
  have d: "parse_args [''--weights'', ''w.h5'', ''evaluate''] =
     Inr \<lparr> arg_command = ''evaluate'', arg_dataset = None, arg_weights = ''w.h5'',
           arg_logs = ''logs/'', arg_image = None, arg_video = None \<rparr>"
    by (rule cli_surface[THEN conjunct2, THEN conjunct2, THEN conjunct2, rule_format])
       (rule g)
  show ?thesis using a' pre nb rej g d unfolding eq by (intro conjI) simp_all
qed

subsection \<open>The dispatch\<close>

lemma parse_args_command:
  assumes "parse_args argv = Inr a"
  shows "arg_command a \<in> {''train'', ''splash'', ''evaluate''}"
proof -
  from assms obtain ns where ns: "parse_tokens argv initial_namespace = Inr ns"
    by (cases "parse_tokens argv initial_namespace") (simp_all add: parse_args_def)
  from assms ns obtain wt where wt: "ns_weights ns = Some wt"
    by (cases "ns_weights ns") (simp_all add: parse_args_def)
  from assms ns wt obtain c where c: "ns_positionals ns = [c]"
    by (cases "ns_positionals ns") (simp_all add: parse_args_def split: list.splits)
  from assms ns wt c have cm: "c \<in> set commands"
    by (cases "c \<in> set commands") (simp_all add: parse_args_def)
  from assms ns wt c cm have "arg_command a = c"
    by (auto simp: parse_args_def)
  then show ?thesis using cm by (simp add: commands_def)
qed

lemma readme_train:
  "parse_args [''--dataset'', ''/data/ycb'', ''--weights'', ''coco'', ''train''] =
     Inr \<lparr> arg_command = ''train'', arg_dataset = Some ''/data/ycb'', arg_weights = ''coco'',
           arg_logs = ''logs/'', arg_image = None, arg_video = None \<rparr>"
  by (simp add: parse_args_def initial_namespace_def store_option_def is_flag_def commands_def)

lemma readme_train_main:
  "main [''--dataset'', ''/data/ycb'', ''--weights'', ''coco'', ''train''] =
     Inr [ModelTrain (Some ''/data/ycb'')]"
  by (simp add: main_def readme_train dispatch_def)

lemma readme_image_splash:
  "parse_args [''--dataset'', ''/data/ycb'', ''--weights'', ''w.h5'', ''--image'', ''a.png'', ''splash''] =
     Inr \<lparr> arg_command = ''splash'', arg_dataset = Some ''/data/ycb'', arg_weights = ''w.h5'',
           arg_logs = ''logs/'', arg_image = Some ''a.png'', arg_video = None \<rparr>"
  by (simp add: parse_args_def initial_namespace_def store_option_def is_flag_def commands_def)

lemma readme_image_splash_main:
  "main [''--dataset'', ''/data/ycb'', ''--weights'', ''w.h5'', ''--image'', ''a.png'', ''splash''] =
     Inr [ModelDetect (ImageInput ''a.png''), Overlay (ImageInput ''a.png'')]"
  by (simp add: main_def readme_image_splash dispatch_def splash_def)

lemma dispatch_cases:
  assumes "dispatch a = Inr acts"
  shows "(arg_command a = ''train'' \<and> acts = [ModelTrain (arg_dataset a)]) \<or>
         (arg_command a = ''splash'' \<and>
            ((\<exists>p. arg_image a = Some p \<and> acts = [ModelDetect (ImageInput p), Overlay (ImageInput p)]) \<or>
             (\<exists>v. arg_image a = None \<and> arg_video a = Some v \<and>
                  acts = [ModelDetect (VideoInput v), Overlay (VideoInput v)]))) \<or>
         (arg_command a = ''evaluate'' \<and> acts = [ModelEvaluate (arg_dataset a)])"
  using assms
  by (auto simp: dispatch_def splash_def split: if_splits option.splits)

text \<open>
  Claim C8. The script is argument parsing followed by a three-way dispatch. When parsing
  fails the run ends with the parser's error and nothing is called. When parsing succeeds
  the command is one of three, and the run is determined by it: \<open>train\<close> makes the
  training call and nothing else, \<open>evaluate\<close> makes the evaluation call and nothing else,
  and \<open>splash\<close> makes the detection call on the input given by \<open>--image\<close> or
  \<open>--video\<close> followed by the overlay of its results, or ends with an error when neither
  is given. So a run that ends normally has made exactly one call on the external model,
  the one of its command.
\<close>

theorem cli_three_way_dispatch:
  "(parse_args argv = Inr a \<longrightarrow>
      arg_command a \<in> {''train'', ''splash'', ''evaluate''} \<and>
      (arg_command a = ''train'' \<longrightarrow> main argv = Inr [ModelTrain (arg_dataset a)]) \<and>
      (arg_command a = ''evaluate'' \<longrightarrow> main argv = Inr [ModelEvaluate (arg_dataset a)]) \<and>
      (arg_command a = ''splash'' \<longrightarrow>
         (\<forall>p. arg_image a = Some p \<and> arg_video a = None \<longrightarrow>
              main argv = Inr [ModelDetect (ImageInput p), Overlay (ImageInput p)]) \<and>
         (\<forall>v. arg_image a = None \<and> arg_video a = Some v \<longrightarrow>
              main argv = Inr [ModelDetect (VideoInput v), Overlay (VideoInput v)]) \<and>
         (\<forall>p v. arg_image a = Some p \<and> arg_video a = Some v \<longrightarrow>
              (\<exists>i. i \<in> {ImageInput p, VideoInput v} \<and> main argv = Inr [ModelDetect i, Overlay i])) \<and>
         (arg_image a = None \<and> arg_video a = None \<longrightarrow> (\<exists>e. main argv = Inl e)))) \<and>
   (\<forall>e. parse_args argv = Inl e \<longrightarrow> main argv = Inl e) \<and>
   (main argv = Inr acts \<longrightarrow>
      (\<exists>a. parse_args argv = Inr a \<and>
           ((arg_command a = ''train'' \<and> filter is_model_call acts = [ModelTrain (arg_dataset a)]) \<or>
            (arg_command a = ''splash'' \<and> (\<exists>i. filter is_model_call acts = [ModelDetect i])) \<or>
            (arg_command a = ''evaluate'' \<and>
               filter is_model_call acts = [ModelEvaluate (arg_dataset a)]))))"
proof (intro conjI)
  show "parse_args argv = Inr a \<longrightarrow>
      arg_command a \<in> {''train'', ''splash'', ''evaluate''} \<and>
      (arg_command a = ''train'' \<longrightarrow> main argv = Inr [ModelTrain (arg_dataset a)]) \<and>
      (arg_command a = ''evaluate'' \<longrightarrow> main argv = Inr [ModelEvaluate (arg_dataset a)]) \<and>
      (arg_command a = ''splash'' \<longrightarrow>
         (\<forall>p. arg_image a = Some p \<and> arg_video a = None \<longrightarrow>
              main argv = Inr [ModelDetect (ImageInput p), Overlay (ImageInput p)]) \<and>
         (\<forall>v. arg_image a = None \<and> arg_video a = Some v \<longrightarrow>
              main argv = Inr [ModelDetect (VideoInput v), Overlay (VideoInput v)]) \<and>
         (\<forall>p v. arg_image a = Some p \<and> arg_video a = Some v \<longrightarrow>
              (\<exists>i. i \<in> {ImageInput p, VideoInput v} \<and> main argv = Inr [ModelDetect i, Overlay i])) \<and>
         (arg_image a = None \<and> arg_video a = None \<longrightarrow> (\<exists>e. main argv = Inl e)))"
  proof (rule impI)
    assume ok: "parse_args argv = Inr a"
    have m: "main argv = dispatch a" using ok by (simp add: main_def)
    have cmd: "arg_command a \<in> {''train'', ''splash'', ''evaluate''}"
      using parse_args_command[OF ok] .
    have tr: "arg_command a = ''train'' \<longrightarrow> main argv = Inr [ModelTrain (arg_dataset a)]"
      by (simp add: m dispatch_def)
    have ev: "arg_command a = ''evaluate'' \<longrightarrow> main argv = Inr [ModelEvaluate (arg_dataset a)]"
      by (simp add: m dispatch_def)
    have sp: "arg_command a = ''splash'' \<longrightarrow>
         (\<forall>p. arg_image a = Some p \<and> arg_video a = None \<longrightarrow>
              main argv = Inr [ModelDetect (ImageInput p), Overlay (ImageInput p)]) \<and>
         (\<forall>v. arg_image a = None \<and> arg_video a = Some v \<longrightarrow>
              main argv = Inr [ModelDetect (VideoInput v), Overlay (VideoInput v)]) \<and>
         (\<forall>p v. arg_image a = Some p \<and> arg_video a = Some v \<longrightarrow>
              (\<exists>i. i \<in> {ImageInput p, VideoInput v} \<and> main argv = Inr [ModelDetect i, Overlay i])) \<and>
         (arg_image a = None \<and> arg_video a = None \<longrightarrow> (\<exists>e. main argv = Inl e))"
      by (simp add: m dispatch_def splash_def)
    show "arg_command a \<in> {''train'', ''splash'', ''evaluate''} \<and>
      (arg_command a = ''train'' \<longrightarrow> main argv = Inr [ModelTrain (arg_dataset a)]) \<and>
      (arg_command a = ''evaluate'' \<longrightarrow> main argv = Inr [ModelEvaluate (arg_dataset a)]) \<and>
      (arg_command a = ''splash'' \<longrightarrow>
         (\<forall>p. arg_image a = Some p \<and> arg_video a = None \<longrightarrow>
              main argv = Inr [ModelDetect (ImageInput p), Overlay (ImageInput p)]) \<and>
         (\<forall>v. arg_image a = None \<and> arg_video a = Some v \<longrightarrow>
              main argv = Inr [ModelDetect (VideoInput v), Overlay (VideoInput v)]) \<and>
         (\<forall>p v. arg_image a = Some p \<and> arg_video a = Some v \<longrightarrow>
              (\<exists>i. i \<in> {ImageInput p, VideoInput v} \<and> main argv = Inr [ModelDetect i, Overlay i])) \<and>
         (arg_image a = None \<and> arg_video a = None \<longrightarrow> (\<exists>e. main argv = Inl e)))"
      using cmd tr ev sp by (intro conjI)
  qed
  show "\<forall>e. parse_args argv = Inl e \<longrightarrow> main argv = Inl e"
    by (simp add: main_def)
  show "main argv = Inr acts \<longrightarrow>
      (\<exists>a. parse_args argv = Inr a \<and>
           ((arg_command a = ''train'' \<and> filter is_model_call acts = [ModelTrain (arg_dataset a)]) \<or>
            (arg_command a = ''splash'' \<and> (\<exists>i. filter is_model_call acts = [ModelDetect i])) \<or>
            (arg_command a = ''evaluate'' \<and>
               filter is_model_call acts = [ModelEvaluate (arg_dataset a)])))"
  proof (rule impI)
    assume m: "main argv = Inr acts"
    then obtain b where b: "parse_args argv = Inr b" and d: "dispatch b = Inr acts"
      by (auto simp: main_def split: sum.splits)
    from dispatch_cases[OF d] b
    show "\<exists>a. parse_args argv = Inr a \<and>
           ((arg_command a = ''train'' \<and> filter is_model_call acts = [ModelTrain (arg_dataset a)]) \<or>
            (arg_command a = ''splash'' \<and> (\<exists>i. filter is_model_call acts = [ModelDetect i])) \<or>
            (arg_command a = ''evaluate'' \<and>
               filter is_model_call acts = [ModelEvaluate (arg_dataset a)]))"
      by (intro exI[of _ b]) auto
  qed
qed

theorem cli_three_way_dispatch_witness:
  "parse_args [''--dataset'', ''/data/ycb'', ''--weights'', ''coco'', ''train''] =
     Inr \<lparr> arg_command = ''train'', arg_dataset = Some ''/data/ycb'', arg_weights = ''coco'',
           arg_logs = ''logs/'', arg_image = None, arg_video = None \<rparr> \<and>
   main [''--dataset'', ''/data/ycb'', ''--weights'', ''coco'', ''train''] =
     Inr [ModelTrain (Some ''/data/ycb'')] \<and>
   parse_args [''--dataset'', ''/data/ycb'', ''--weights'', ''w.h5'', ''evaluate''] =
     Inr \<lparr> arg_command = ''evaluate'', arg_dataset = Some ''/data/ycb'', arg_weights = ''w.h5'',
           arg_logs = ''logs/'', arg_image = None, arg_video = None \<rparr> \<and>
   main [''--dataset'', ''/data/ycb'', ''--weights'', ''w.h5'', ''evaluate''] =
     Inr [ModelEvaluate (Some ''/data/ycb'')] \<and>
   main [''--dataset'', ''/data/ycb'', ''--weights'', ''w.h5'', ''--image'', ''a.png'', ''splash''] =
     Inr [ModelDetect (ImageInput ''a.png''), Overlay (ImageInput ''a.png'')] \<and>
   filter is_model_call [ModelDetect (ImageInput ''a.png''), Overlay (ImageInput ''a.png'')] =
     [ModelDetect (ImageInput ''a.png'')] \<and>
   parse_args [''--weights'', ''coco''] =
     Inl (UsageError ''the following arguments are required: <command>'') \<and>
   main [''--weights'', ''coco''] =
     Inl (UsageError ''the following arguments are required: <command>'')"
proof -
  let ?tr = "[''--dataset'', ''/data/ycb'', ''--weights'', ''coco'', ''train'']"
  let ?ev = "[''--dataset'', ''/data/ycb'', ''--weights'', ''w.h5'', ''evaluate'']"
  let ?sp = "[''--dataset'', ''/data/ycb'', ''--weights'', ''w.h5'', ''--image'', ''a.png'', ''splash'']"
  have pe: "parse_args ?ev =
     Inr \<lparr> arg_command = ''evaluate'', arg_dataset = Some ''/data/ycb'', arg_weights = ''w.h5'',
           arg_logs = ''logs/'', arg_image = None, arg_video = None \<rparr>"
    by (simp add: parse_args_def initial_namespace_def store_option_def is_flag_def commands_def)
  note t = cli_three_way_dispatch[of ?tr _ _, THEN conjunct1, rule_format, OF readme_train]
  have mt: "main ?tr = Inr [ModelTrain (Some ''/data/ycb'')]"
    using t by simp
  note e = cli_three_way_dispatch[of ?ev _ _, THEN conjunct1, rule_format, OF pe]
  have me: "main ?ev = Inr [ModelEvaluate (Some ''/data/ycb'')]"
    using e by simp
  note s = cli_three_way_dispatch[of ?sp _ _, THEN conjunct1, rule_format, OF readme_image_splash]
  have ms: "main ?sp = Inr [ModelDetect (ImageInput ''a.png''), Overlay (ImageInput ''a.png'')]"
    using s by simp
  have pf: "parse_args [''--weights'', ''coco''] =
     Inl (UsageError ''the following arguments are required: <command>'')"
    by (simp add: parse_args_def initial_namespace_def store_option_def is_flag_def)
  have mf: "main [''--weights'', ''coco''] =
     Inl (UsageError ''the following arguments are required: <command>'')"
    using cli_three_way_dispatch[of "[''--weights'', ''coco'']" _ _,
            THEN conjunct2, THEN conjunct1, rule_format, OF pf] .
  show ?thesis using readme_train mt pe me ms pf mf by simp
qed

subsection \<open>Splash\<close>

text \<open>
  Claim C9. A splash command that ends normally has run detection on, and overlaid the
  results on, the input named by \<open>--image\<close> or by \<open>--video\<close>; and a splash command
  given one of the two does end normally.
\<close>

theorem splash_overlays_given_input:
  "(parse_args argv = Inr a \<and> arg_command a = ''splash'' \<and> main argv = Inr acts \<longrightarrow>
      (\<exists>p. arg_image a = Some p \<and> acts = [ModelDetect (ImageInput p), Overlay (ImageInput p)]) \<or>
      (\<exists>v. arg_video a = Some v \<and> acts = [ModelDetect (VideoInput v), Overlay (VideoInput v)])) \<and>
   (parse_args argv = Inr a \<and> arg_command a = ''splash'' \<and>
      (arg_image a \<noteq> None \<or> arg_video a \<noteq> None) \<longrightarrow> (\<exists>acts'. main argv = Inr acts'))"
proof (rule conjI)
  show "parse_args argv = Inr a \<and> arg_command a = ''splash'' \<and> main argv = Inr acts \<longrightarrow>
      (\<exists>p. arg_image a = Some p \<and> acts = [ModelDetect (ImageInput p), Overlay (ImageInput p)]) \<or>
      (\<exists>v. arg_video a = Some v \<and> acts = [ModelDetect (VideoInput v), Overlay (VideoInput v)])"
  proof (rule impI)
    assume h: "parse_args argv = Inr a \<and> arg_command a = ''splash'' \<and> main argv = Inr acts"
    then have d: "dispatch a = Inr acts" by (auto simp: main_def)
    from dispatch_cases[OF d] h
    show "(\<exists>p. arg_image a = Some p \<and> acts = [ModelDetect (ImageInput p), Overlay (ImageInput p)]) \<or>
      (\<exists>v. arg_video a = Some v \<and> acts = [ModelDetect (VideoInput v), Overlay (VideoInput v)])"
      by auto
  qed
  show "parse_args argv = Inr a \<and> arg_command a = ''splash'' \<and>
      (arg_image a \<noteq> None \<or> arg_video a \<noteq> None) \<longrightarrow> (\<exists>acts'. main argv = Inr acts')"
    by (auto simp: main_def dispatch_def splash_def split: option.splits)
qed

theorem splash_overlays_given_input_witness:
  "parse_args [''--dataset'', ''/data/ycb'', ''--weights'', ''w.h5'', ''--image'', ''a.png'', ''splash''] =
     Inr \<lparr> arg_command = ''splash'', arg_dataset = Some ''/data/ycb'', arg_weights = ''w.h5'',
           arg_logs = ''logs/'', arg_image = Some ''a.png'', arg_video = None \<rparr> \<and>
   main [''--dataset'', ''/data/ycb'', ''--weights'', ''w.h5'', ''--image'', ''a.png'', ''splash''] =
     Inr [ModelDetect (ImageInput ''a.png''), Overlay (ImageInput ''a.png'')] \<and>
   (\<exists>p. Some ''a.png'' = Some p \<and>
        [ModelDetect (ImageInput ''a.png''), Overlay (ImageInput ''a.png'')] =
        [ModelDetect (ImageInput p), Overlay (ImageInput p)])"
  using splash_overlays_given_input
    [of "[''--dataset'', ''/data/ycb'', ''--weights'', ''w.h5'', ''--image'', ''a.png'', ''splash'']"
        "\<lparr> arg_command = ''splash'', arg_dataset = Some ''/data/ycb'', arg_weights = ''w.h5'',
           arg_logs = ''logs/'', arg_image = Some ''a.png'', arg_video = None \<rparr>"
        "[ModelDetect (ImageInput ''a.png''), Overlay (ImageInput ''a.png'')]"]
    readme_image_splash readme_image_splash_main
  by simp

end
